theory Spec2Isabelle
  imports Main
begin

section \<open>Python values used by the editor\<close>

text \<open>
  A Python \<open>str\<close> is a sequence of code points and a \<open>bytes\<close>/\<open>bytearray\<close> a sequence
  of integers below 256; both are lists of naturals here. The editor keeps every line in a
  byte array and addresses it by character, so the two lengths differ as soon as a line
  holds a character outside ASCII.
\<close>

type_synonym pystr = "nat list"
type_synonym pybytes = "nat list"

text \<open>
  The exceptions the modelled code can meet. \<open>BlockingIOError\<close> and
  \<open>InterruptedError\<close> are subclasses of \<open>OSError\<close>; the three carry the text that
  \<open>str(e)\<close> gives. \<open>OtherError\<close> stands for an exception of any other class raised by
  the platform (a failed subprocess, a file that does not decode).
\<close>

datatype error =
    UnicodeEncodeError | IndexError | AttributeError | TypeError
  | BlockingIOError pystr | InterruptedError pystr | OSError pystr | OtherError pystr

text \<open>\<open>except OSError as e\<close>: the text of \<open>e\<close> when the clause catches the exception.\<close>

fun as_OSError :: "error \<Rightarrow> pystr option" where
  "as_OSError (BlockingIOError msg) = Some msg"
| "as_OSError (InterruptedError msg) = Some msg"
| "as_OSError (OSError msg) = Some msg"
| "as_OSError e = None"

subsection \<open>Slices\<close>

text \<open>
  \<open>xs[a:b]\<close>: a negative bound counts from the end, every bound is clamped into
  \<open>[0, len]\<close>, an omitted bound is the start or the end. Slicing never raises.
\<close>

definition slice_index :: "nat \<Rightarrow> int \<Rightarrow> nat" where
  "slice_index n i = (if i < 0 then nat (int n + i) else min n (nat i))"

definition slice_bound :: "nat \<Rightarrow> nat \<Rightarrow> int option \<Rightarrow> nat" where
  "slice_bound n d b = (case b of None \<Rightarrow> d | Some i \<Rightarrow> slice_index n i)"

definition py_slice :: "'a list \<Rightarrow> int option \<Rightarrow> int option \<Rightarrow> 'a list" where
  "py_slice xs a b =
     (let n = length xs; lo = slice_bound n 0 a; hi = slice_bound n n b
      in take (hi - lo) (drop lo xs))"

text \<open>
  \<open>xs[a:b] = ys\<close> replaces the slice by \<open>ys\<close>, whatever the two lengths are: the
  array shrinks or grows. When the upper bound is below the lower one, \<open>ys\<close> is
  inserted at the lower bound.
\<close>

definition py_slice_assign :: "'a list \<Rightarrow> int option \<Rightarrow> int option \<Rightarrow> 'a list \<Rightarrow> 'a list" where
  "py_slice_assign xs a b ys =
     (let n = length xs; lo = slice_bound n 0 a; hi = max lo (slice_bound n n b)
      in take lo xs @ ys @ drop hi xs)"

subsection \<open>UTF-8\<close>

text \<open>
  \<open>str.encode('utf-8')\<close> raises \<open>UnicodeEncodeError\<close> on a surrogate code point
  (U+D800 to U+DFFF); every other code point up to U+10FFFF has one to four bytes.
\<close>

definition encodable :: "nat \<Rightarrow> bool" where
  "encodable c \<longleftrightarrow> c < 0xD800 \<or> (0xE000 \<le> c \<and> c < 0x110000)"

definition encode_char :: "nat \<Rightarrow> pybytes" where
  "encode_char c =
     (if c < 0x80 then [c]
      else if c < 0x800 then [0xC0 + c div 64, 0x80 + c mod 64]
      else if c < 0x10000 then [0xE0 + c div 4096, 0x80 + (c div 64) mod 64, 0x80 + c mod 64]
      else [0xF0 + c div 262144, 0x80 + (c div 4096) mod 64, 0x80 + (c div 64) mod 64,
            0x80 + c mod 64])"

definition utf8_bytes :: "pystr \<Rightarrow> pybytes" where
  "utf8_bytes s = concat (map encode_char s)"

definition str_encode :: "pystr \<Rightarrow> error + pybytes" where
  "str_encode s = (if list_all encodable s then Inr (utf8_bytes s) else Inl UnicodeEncodeError)"

text \<open>
  \<open>bytes.decode('utf-8', 'replace')\<close> never raises: each maximal ill-formed prefix of a
  sequence becomes one U+FFFD and decoding resumes at the byte that broke the sequence;
  a sequence cut off by the end of the input becomes one U+FFFD. The second byte of a
  three- or four-byte sequence is restricted further after E0, ED, F0 and F4, which
  excludes overlong forms, surrogates and code points above U+10FFFF.
\<close>

definition REPLACEMENT :: nat where
  "REPLACEMENT = 0xFFFD"

definition is_cont :: "nat \<Rightarrow> bool" where
  "is_cont b \<longleftrightarrow> 0x80 \<le> b \<and> b \<le> 0xBF"

definition second3_ok :: "nat \<Rightarrow> nat \<Rightarrow> bool" where
  "second3_ok b0 b1 \<longleftrightarrow>
     is_cont b1 \<and> \<not> (if b1 < 0xA0 then b0 = 0xE0 else b0 = 0xED)"

definition second4_ok :: "nat \<Rightarrow> nat \<Rightarrow> bool" where
  "second4_ok b0 b1 \<longleftrightarrow>
     is_cont b1 \<and> \<not> (if b1 < 0x90 then b0 = 0xF0 else b0 = 0xF4)"

fun utf8_decode :: "pybytes \<Rightarrow> pystr" where
  "utf8_decode [] = []"
| "utf8_decode (b0 # rest) =
     (if b0 < 0x80 then b0 # utf8_decode rest
      else if b0 < 0xC2 then REPLACEMENT # utf8_decode rest
      else if b0 < 0xE0 then
        (case rest of
           [] \<Rightarrow> [REPLACEMENT]
         | b1 # r1 \<Rightarrow>
             if is_cont b1 then ((b0 - 0xC0) * 64 + (b1 - 0x80)) # utf8_decode r1
             else REPLACEMENT # utf8_decode rest)
      else if b0 < 0xF0 then
        (case rest of
           [] \<Rightarrow> [REPLACEMENT]
         | b1 # r1 \<Rightarrow>
             if \<not> second3_ok b0 b1 then REPLACEMENT # utf8_decode rest
             else (case r1 of
                     [] \<Rightarrow> [REPLACEMENT]
                   | b2 # r2 \<Rightarrow>
                       if is_cont b2
                       then ((b0 - 0xE0) * 4096 + (b1 - 0x80) * 64 + (b2 - 0x80)) # utf8_decode r2
                       else REPLACEMENT # utf8_decode r1))
      else if b0 < 0xF5 then
        (case rest of
           [] \<Rightarrow> [REPLACEMENT]
         | b1 # r1 \<Rightarrow>
             if \<not> second4_ok b0 b1 then REPLACEMENT # utf8_decode rest
             else (case r1 of
                     [] \<Rightarrow> [REPLACEMENT]
                   | b2 # r2 \<Rightarrow>
                       if \<not> is_cont b2 then REPLACEMENT # utf8_decode r1
                       else (case r2 of
                               [] \<Rightarrow> [REPLACEMENT]
                             | b3 # r3 \<Rightarrow>
                                 if is_cont b3
                                 then ((b0 - 0xF0) * 262144 + (b1 - 0x80) * 4096
                                       + (b2 - 0x80) * 64 + (b3 - 0x80)) # utf8_decode r3
                                 else REPLACEMENT # utf8_decode r2)))
      else REPLACEMENT # utf8_decode rest)"

section \<open>The line buffer: class GapBuffer\<close>

record gapbuffer =
  buffer :: pybytes
  gap_start :: int
  gap_end :: int

definition MIN_GAP_SIZE :: int where
  "MIN_GAP_SIZE = 16"

text \<open>\<open>bytearray(n)\<close>: \<open>n\<close> zero bytes. Both calls of the class pass at least 16.\<close>

definition bytearray_zeros :: "int \<Rightarrow> pybytes" where
  "bytearray_zeros n = replicate (nat n) 0"

definition GapBuffer_init :: "pystr \<Rightarrow> error + gapbuffer" where
  "GapBuffer_init text =
     (case str_encode text of
        Inl e \<Rightarrow> Inl e
      | Inr encoded_text \<Rightarrow>
          let n = int (length encoded_text);
              initial_gap = max MIN_GAP_SIZE (n div 2);
              buf = py_slice_assign (bytearray_zeros (n + initial_gap)) None (Some n) encoded_text
          in Inr \<lparr>buffer = buf, gap_start = n, gap_end = int (length buf)\<rparr>)"

definition to_string :: "gapbuffer \<Rightarrow> pystr" where
  "to_string gb =
     utf8_decode (py_slice (buffer gb) None (Some (gap_start gb))
                  @ py_slice (buffer gb) (Some (gap_end gb)) None)"

definition gb_len :: "gapbuffer \<Rightarrow> int" where
  "gb_len gb = int (length (to_string gb))"

definition get_byte_pos :: "gapbuffer \<Rightarrow> int \<Rightarrow> error + int" where
  "get_byte_pos gb char_pos =
     (case str_encode (py_slice (to_string gb) None (Some char_pos)) of
        Inl e \<Rightarrow> Inl e
      | Inr enc \<Rightarrow> Inr (int (length enc)))"

definition resize_if_needed :: "gapbuffer \<Rightarrow> int \<Rightarrow> gapbuffer" where
  "resize_if_needed gb text_len =
     (if gap_end gb - gap_start gb < text_len then
        let new_gap_size = max MIN_GAP_SIZE (max text_len (gb_len gb div 2));
            new_buffer_size = gb_len gb + new_gap_size;
            new_buffer0 = bytearray_zeros new_buffer_size;
            new_buffer1 = py_slice_assign new_buffer0 None (Some (gap_start gb))
                            (py_slice (buffer gb) None (Some (gap_start gb)));
            content_after_len = int (length (buffer gb)) - gap_end gb;
            new_buffer2 = py_slice_assign new_buffer1
                            (Some (new_buffer_size - content_after_len)) None
                            (py_slice (buffer gb) (Some (gap_end gb)) None)
        in gb\<lparr>buffer := new_buffer2, gap_end := new_buffer_size - content_after_len\<rparr>
      else gb)"

definition move_gap :: "gapbuffer \<Rightarrow> int \<Rightarrow> error + gapbuffer" where
  "move_gap gb char_pos =
     (case get_byte_pos gb char_pos of
        Inl e \<Rightarrow> Inl e
      | Inr byte_pos \<Rightarrow>
          if byte_pos = gap_start gb then Inr gb
          else
            let gap_size = gap_end gb - gap_start gb in
            if byte_pos < gap_start gb then
              let move_len = gap_start gb - byte_pos;
                  src = py_slice (buffer gb) (Some byte_pos) (Some (gap_start gb));
                  buf = py_slice_assign (buffer gb) (Some (gap_end gb - move_len))
                          (Some (gap_end gb)) src
              in Inr (gb\<lparr>buffer := buf, gap_start := byte_pos,
                          gap_end := byte_pos + gap_size\<rparr>)
            else
              let move_len = byte_pos - gap_start gb;
                  src = py_slice (buffer gb) (Some (gap_end gb)) (Some (gap_end gb + move_len));
                  buf = py_slice_assign (buffer gb) (Some (gap_start gb))
                          (Some (gap_start gb + move_len)) src
              in Inr (gb\<lparr>buffer := buf, gap_start := gap_start gb + move_len,
                          gap_end := gap_end gb + move_len\<rparr>))"

definition gb_insert :: "gapbuffer \<Rightarrow> pystr \<Rightarrow> int \<Rightarrow> error + gapbuffer" where
  "gb_insert gb text char_pos =
     (case move_gap gb char_pos of
        Inl e \<Rightarrow> Inl e
      | Inr gb1 \<Rightarrow>
          (case str_encode text of
             Inl e \<Rightarrow> Inl e
           | Inr encoded_text \<Rightarrow>
               let text_len = int (length encoded_text);
                   gb2 = resize_if_needed gb1 text_len;
                   buf = py_slice_assign (buffer gb2) (Some (gap_start gb2))
                           (Some (gap_start gb2 + text_len)) encoded_text
               in Inr (gb2\<lparr>buffer := buf, gap_start := gap_start gb2 + text_len\<rparr>)))"

definition gb_delete :: "gapbuffer \<Rightarrow> int \<Rightarrow> int \<Rightarrow> error + gapbuffer" where
  "gb_delete gb char_pos char_len =
     (if char_len \<le> 0 then Inr gb
      else
        case get_byte_pos gb char_pos of
          Inl e \<Rightarrow> Inl e
        | Inr start_byte_pos \<Rightarrow>
            (case get_byte_pos gb (char_pos + char_len) of
               Inl e \<Rightarrow> Inl e
             | Inr end_byte_pos \<Rightarrow>
                 (case move_gap gb char_pos of
                    Inl e \<Rightarrow> Inl e
                  | Inr gb1 \<Rightarrow>
                      Inr (gb1\<lparr>gap_end := gap_end gb1 + (end_byte_pos - start_byte_pos)\<rparr>))))"

definition get_slice :: "gapbuffer \<Rightarrow> int option \<Rightarrow> int option \<Rightarrow> pystr" where
  "get_slice gb start_char end_char = py_slice (to_string gb) start_char end_char"


section \<open>Logical keys: class Key and class KeyDecoder\<close>

datatype (plugins only: code) key =
    CTRL_A | CTRL_C | CTRL_D | CTRL_E | CTRL_F | CTRL_G | CTRL_H | CTRL_L | CTRL_N | CTRL_P
  | CTRL_Q | CTRL_S | CTRL_V | CTRL_X | CTRL_Y | ENTER | ESCAPE | BACKSPACE | TAB
  | UP | DOWN | LEFT | RIGHT | HOME | END | DELETE | PAGE_UP | PAGE_DOWN | INSERT
  | SHIFT_UP | SHIFT_DOWN | SHIFT_LEFT | SHIFT_RIGHT | SHIFT_HOME | SHIFT_END
  | SHIFT_PAGE_UP | SHIFT_PAGE_DOWN | SHIFT_INSERT | SHIFT_DELETE
  | CTRL_LEFT | CTRL_RIGHT | CTRL_HOME | CTRL_END | CTRL_UP | CTRL_DOWN
  | CTRL_INSERT | CTRL_DELETE
  | CTRL_SHIFT_LEFT | CTRL_SHIFT_RIGHT | CTRL_SHIFT_HOME | CTRL_SHIFT_END
  | CTRL_SHIFT_UP | CTRL_SHIFT_DOWN | CTRL_SHIFT_INSERT | CTRL_SHIFT_DELETE
  | CTRL_0 | CTRL_1 | CTRL_2 | CTRL_3 | CTRL_4 | CTRL_5 | CTRL_6 | CTRL_7 | CTRL_8 | CTRL_9
  | F1 | F2 | UNKNOWN | CHAR_KEY

text \<open>\<open>'SHIFT' in k.name\<close>, as the editor asks it of a key.\<close>

definition shift_in_name :: "key \<Rightarrow> bool" where
  "shift_in_name k \<longleftrightarrow>
     k \<in> set [SHIFT_UP, SHIFT_DOWN, SHIFT_LEFT, SHIFT_RIGHT, SHIFT_HOME, SHIFT_END,
              SHIFT_PAGE_UP, SHIFT_PAGE_DOWN, SHIFT_INSERT, SHIFT_DELETE,
              CTRL_SHIFT_LEFT, CTRL_SHIFT_RIGHT, CTRL_SHIFT_HOME, CTRL_SHIFT_END,
              CTRL_SHIFT_UP, CTRL_SHIFT_DOWN, CTRL_SHIFT_INSERT, CTRL_SHIFT_DELETE]"

text \<open>The code points of an ASCII literal of the source.\<close>

definition cps :: "string \<Rightarrow> pystr" where
  "cps s = map of_char s"

definition ESC :: nat where
  "ESC = 0x1B"

text \<open>\<open>KeyDecoder.__init__\<close>: the table of escape sequences, a dict literal.\<close>

definition key_map :: "(pystr \<times> key) list" where
  "key_map =
     [(ESC # cps ''[A'', UP), (ESC # cps ''[B'', DOWN), (ESC # cps ''[C'', RIGHT),
      (ESC # cps ''[D'', LEFT),
      (ESC # cps ''[H'', HOME), (ESC # cps ''[F'', END), (ESC # cps ''[2~'', INSERT),
      (ESC # cps ''[3~'', DELETE),
      (ESC # cps ''[5~'', PAGE_UP), (ESC # cps ''[6~'', PAGE_DOWN),
      (ESC # cps ''[11~'', F1), (ESC # cps ''OP'', F1),
      (ESC # cps ''[12~'', F2), (ESC # cps ''OQ'', F2),
      (ESC # cps ''[1;2A'', SHIFT_UP), (ESC # cps ''[1;2B'', SHIFT_DOWN),
      (ESC # cps ''[1;2C'', SHIFT_RIGHT), (ESC # cps ''[1;2D'', SHIFT_LEFT),
      (ESC # cps ''[1;2H'', SHIFT_HOME), (ESC # cps ''[1;2F'', SHIFT_END),
      (ESC # cps ''[2;2~'', SHIFT_INSERT), (ESC # cps ''[3;2~'', SHIFT_DELETE),
      (ESC # cps ''[1;5A'', CTRL_UP), (ESC # cps ''[1;5B'', CTRL_DOWN),
      (ESC # cps ''[1;5C'', CTRL_RIGHT), (ESC # cps ''[1;5D'', CTRL_LEFT),
      (ESC # cps ''[1;5H'', CTRL_HOME), (ESC # cps ''[1;5F'', CTRL_END),
      (ESC # cps ''[2;5~'', CTRL_INSERT), (ESC # cps ''[3;5~'', CTRL_DELETE),
      (ESC # cps ''[1;6A'', CTRL_SHIFT_UP), (ESC # cps ''[1;6B'', CTRL_SHIFT_DOWN),
      (ESC # cps ''[1;6C'', CTRL_SHIFT_RIGHT), (ESC # cps ''[1;6D'', CTRL_SHIFT_LEFT),
      (ESC # cps ''[1;6H'', CTRL_SHIFT_HOME), (ESC # cps ''[1;6F'', CTRL_SHIFT_END),
      (ESC # cps ''[2;6~'', CTRL_SHIFT_INSERT), (ESC # cps ''[3;6~'', CTRL_SHIFT_DELETE)]"

text \<open>
  \<open>_map_single_char\<close>. \<open>str.isprintable\<close> reads the Unicode character database, which
  is no part of the repository: it is a parameter.
\<close>

definition single_char_map :: "(pystr \<times> key) list" where
  "single_char_map =
     [([0x0D], ENTER), ([0x0A], ENTER),
      ([0x7F], BACKSPACE), ([0x08], BACKSPACE),
      ([0x09], TAB), ([0x1B], ESCAPE),
      ([0x01], CTRL_A), ([0x03], CTRL_C), ([0x04], CTRL_D),
      ([0x05], CTRL_E), ([0x06], CTRL_F), ([0x07], CTRL_G), ([0x08], CTRL_H),
      ([0x0C], CTRL_L), ([0x0E], CTRL_N), ([0x10], CTRL_P),
      ([0x11], CTRL_Q), ([0x13], CTRL_S), ([0x16], CTRL_V),
      ([0x18], CTRL_X), ([0x19], CTRL_Y)]"

text \<open>
  In a dict literal a repeated key keeps its last value: \<open>'\b'\<close> and \<open>'\x08'\<close> are the
  same character, so it maps to \<open>CTRL_H\<close>. The lookup therefore reads the literal from
  its end.
\<close>

definition dict_literal_get :: "('k \<times> 'v) list \<Rightarrow> 'k \<Rightarrow> 'v option" where
  "dict_literal_get d k = map_of (rev d) k"

definition map_single_char :: "(pystr \<Rightarrow> bool) \<Rightarrow> pystr \<Rightarrow> key \<times> pystr option" where
  "map_single_char isprintable char =
     (case dict_literal_get single_char_map char of
        Some k \<Rightarrow> (k, None)
      | None \<Rightarrow> if isprintable char then (CHAR_KEY, Some char) else (UNKNOWN, None))"

text \<open>
  \<open>_get_key_unix\<close>. The two reads of standard input are the inputs of the model:
  \<open>char\<close> is what the blocking \<open>sys.stdin.read(1)\<close> returned, \<open>lookahead\<close> what the
  non-blocking \<open>sys.stdin.read(5)\<close> did: it returned a string (empty when nothing was
  waiting) or raised. \<open>BlockingIOError\<close> and \<open>InterruptedError\<close> are caught; any other
  exception leaves the function. The calls to \<open>fcntl\<close> only switch the descriptor's mode.
\<close>

definition get_key_unix ::
    "(pystr \<Rightarrow> bool) \<Rightarrow> pystr \<Rightarrow> error + pystr \<Rightarrow> error + key \<times> pystr option" where
  "get_key_unix isprintable char lookahead =
     (if char \<noteq> [ESC] then Inr (map_single_char isprintable char)
      else
        case (case lookahead of
                Inr rest_of_seq \<Rightarrow> Inr (if rest_of_seq \<noteq> [] then char @ rest_of_seq else char)
              | Inl (BlockingIOError msg) \<Rightarrow> Inr char
              | Inl (InterruptedError msg) \<Rightarrow> Inr char
              | Inl e \<Rightarrow> Inl e) of
          Inl e \<Rightarrow> Inl e
        | Inr seq \<Rightarrow>
            if seq = [ESC] then Inr (ESCAPE, None)
            else Inr (case dict_literal_get key_map seq of Some k \<Rightarrow> k | None \<Rightarrow> UNKNOWN, None))"

section \<open>Python lists and strings used by the editor\<close>

text \<open>
  \<open>xs[i]\<close>, \<open>xs[i] = v\<close> and \<open>xs.pop(i)\<close> count a negative index from the end and
  raise \<open>IndexError\<close> out of range. \<open>xs.insert(i, v)\<close> and \<open>del xs[a:b]\<close> clamp like a
  slice and never raise.
\<close>

definition norm_index :: "nat \<Rightarrow> int \<Rightarrow> error + nat" where
  "norm_index n i =
     (let j = (if i < 0 then int n + i else i)
      in if 0 \<le> j \<and> j < int n then Inr (nat j) else Inl IndexError)"

definition py_index :: "'a list \<Rightarrow> int \<Rightarrow> error + 'a" where
  "py_index xs i = (case norm_index (length xs) i of Inl e \<Rightarrow> Inl e | Inr j \<Rightarrow> Inr (xs ! j))"

definition py_setitem :: "'a list \<Rightarrow> int \<Rightarrow> 'a \<Rightarrow> error + 'a list" where
  "py_setitem xs i v =
     (case norm_index (length xs) i of Inl e \<Rightarrow> Inl e | Inr j \<Rightarrow> Inr (xs[j := v]))"

definition py_pop :: "'a list \<Rightarrow> int \<Rightarrow> error + 'a \<times> 'a list" where
  "py_pop xs i =
     (case norm_index (length xs) i of
        Inl e \<Rightarrow> Inl e
      | Inr j \<Rightarrow> Inr (xs ! j, take j xs @ drop (Suc j) xs))"

definition py_list_insert :: "'a list \<Rightarrow> int \<Rightarrow> 'a \<Rightarrow> 'a list" where
  "py_list_insert xs i v = py_slice_assign xs (Some i) (Some i) [v]"

definition py_del_slice :: "'a list \<Rightarrow> int \<Rightarrow> int \<Rightarrow> 'a list" where
  "py_del_slice xs a b = py_slice_assign xs (Some a) (Some b) []"

fun map_err :: "('a \<Rightarrow> error + 'b) \<Rightarrow> 'a list \<Rightarrow> error + 'b list" where
  "map_err f [] = Inr []"
| "map_err f (x # xs) =
     (case f x of
        Inl e \<Rightarrow> Inl e
      | Inr y \<Rightarrow> (case map_err f xs of Inl e \<Rightarrow> Inl e | Inr ys \<Rightarrow> Inr (y # ys)))"

definition NL :: nat where
  "NL = 0x0A"

text \<open>\<open>s.split('\n')\<close>: at least one segment.\<close>

fun split_nl :: "pystr \<Rightarrow> pystr list" where
  "split_nl [] = [[]]"
| "split_nl (c # cs) =
     (if c = NL then [] # split_nl cs
      else (case split_nl cs of [] \<Rightarrow> [[c]] | seg # segs \<Rightarrow> (c # seg) # segs))"

text \<open>\<open>'\n'.join(segs)\<close>.\<close>

fun join_nl :: "pystr list \<Rightarrow> pystr" where
  "join_nl [] = []"
| "join_nl [seg] = seg"
| "join_nl (seg # segs) = seg @ NL # join_nl segs"

text \<open>\<open>line.rstrip('\n')\<close>.\<close>

definition rstrip_nl :: "pystr \<Rightarrow> pystr" where
  "rstrip_nl s = rev (dropWhile (\<lambda>c. c = NL) (rev s))"

text \<open>
  \<open>s.lower()\<close> is only ever compared with \<open>'y'\<close> and \<open>'n'\<close>: the ASCII letters are
  lowered, and no other character lowers to one of the two.
\<close>

definition lower :: "pystr \<Rightarrow> pystr" where
  "lower s = map (\<lambda>c. if 0x41 \<le> c \<and> c \<le> 0x5A then c + 0x20 else c) s"

definition startswith :: "pystr \<Rightarrow> pystr \<Rightarrow> bool" where
  "startswith s p \<longleftrightarrow> take (length p) s = p"

text \<open>\<open>str(n)\<close> of a length, for the status line.\<close>

function str_of_nat :: "nat \<Rightarrow> pystr" where
  "str_of_nat n = (if n < 10 then [0x30 + n] else str_of_nat (n div 10) @ [0x30 + n mod 10])"
  by pat_completeness auto
termination
  by (relation "measure id") auto

section \<open>The editor: class Editor\<close>

type_synonym keypress = "key \<times> pystr option"

text \<open>
  What the editor reads of its platform during one call. \<open>IS_UNIX\<close> is the module
  constant. \<open>get_terminal_size\<close> is the size \<open>Editor.get_terminal_size\<close> returns, width
  first. \<open>get_clip_text_ps\<close> and \<open>set_clip_text_ps\<close> are the two clipboard bridges
  of the non-Unix host, with the exception they raise if they do. \<open>path_exists\<close> is
  \<open>os.path.exists\<close>, \<open>read_lines\<close> the lines that iterating over the opened file
  gives, \<open>write_file\<close> the result of opening the file for writing and writing the text:
  \<open>None\<close> when it succeeds.
\<close>

record env =
  IS_UNIX :: bool
  get_terminal_size :: "int \<times> int"
  get_clip_text_ps :: "error + pystr"
  set_clip_text_ps :: "pystr \<Rightarrow> error option"
  path_exists :: "pystr \<Rightarrow> bool"
  read_lines :: "pystr \<Rightarrow> error + pystr list"
  write_file :: "pystr \<Rightarrow> pystr \<Rightarrow> error option"
  isspace :: "nat \<Rightarrow> bool"

text \<open>
  The fields of \<open>Editor\<close> that \<open>handle_keypress\<close> and \<open>save_file\<close> read or write.
  \<open>top_line\<close> and \<open>col_offset\<close> belong to \<open>render\<close> alone, which writes nothing else
  than these two and the terminal, and are left out with it.
\<close>

record editor =
  filename :: "pystr option"
  in_memory :: bool
  buffer_lines :: "gapbuffer list"
  cursor_x :: int
  cursor_y :: int
  running :: bool
  is_dirty :: bool
  status_message :: pystr
  help_mode :: bool
  selection_start_x :: int
  selection_start_y :: int
  is_selecting :: bool
  clipboard :: pystr
  action_map :: "key \<Rightarrow> string option"
  plain_movement_keys :: "key list"
  shift_movement_keys :: "key list"

definition DEFAULT_KEY_BINDINGS :: "(string \<times> key list) list" where
  "DEFAULT_KEY_BINDINGS =
     [(''quit'', [CTRL_Q, ESCAPE]),
      (''save'', [CTRL_S, F2]),
      (''toggle_help'', [F1, CTRL_H]),
      (''copy'', [CTRL_C, CTRL_INSERT]),
      (''cut'', [CTRL_X, SHIFT_DELETE]),
      (''paste'', [CTRL_V, SHIFT_INSERT]),
      (''move_up'', [UP, SHIFT_UP, CTRL_UP, CTRL_SHIFT_UP]),
      (''move_down'', [DOWN, SHIFT_DOWN, CTRL_DOWN, CTRL_SHIFT_DOWN]),
      (''move_left'', [LEFT, SHIFT_LEFT]),
      (''move_right'', [RIGHT, SHIFT_RIGHT]),
      (''move_home'', [HOME, SHIFT_HOME]),
      (''move_end'', [END, SHIFT_END]),
      (''move_page_up'', [PAGE_UP, SHIFT_PAGE_UP]),
      (''move_page_down'', [PAGE_DOWN, SHIFT_PAGE_DOWN]),
      (''move_prev_word'', [CTRL_LEFT, CTRL_SHIFT_LEFT]),
      (''move_next_word'', [CTRL_RIGHT, CTRL_SHIFT_RIGHT]),
      (''move_doc_start'', [CTRL_HOME, CTRL_SHIFT_HOME]),
      (''move_doc_end'', [CTRL_END, CTRL_SHIFT_END]),
      (''delete_back'', [BACKSPACE]),
      (''delete_forward'', [DELETE]),
      (''insert_newline'', [ENTER]),
      (''insert_char'', [CHAR_KEY])]"

definition HELP_STATUS :: pystr where
  "HELP_STATUS = cps ''HELP: Ctrl-S save | Ctrl-Q quit | F1/Ctrl-H help''"

text \<open>\<open>d[k] = v\<close> and \<open>d.update(other)\<close> on a dict kept in insertion order.\<close>

fun dict_set :: "('k \<times> 'v) list \<Rightarrow> 'k \<Rightarrow> 'v \<Rightarrow> ('k \<times> 'v) list" where
  "dict_set [] k v = [(k, v)]"
| "dict_set ((k', v') # d) k v = (if k' = k then (k, v) # d else (k', v') # dict_set d k v)"

definition dict_update :: "('k \<times> 'v) list \<Rightarrow> ('k \<times> 'v) list \<Rightarrow> ('k \<times> 'v) list" where
  "dict_update d other = foldl (\<lambda>acc (k, v). dict_set acc k v) d other"

definition movement_actions :: "string list" where
  "movement_actions =
     [''move_up'', ''move_down'', ''move_left'', ''move_right'', ''move_home'', ''move_end'',
      ''move_page_up'', ''move_page_down'', ''move_prev_word'', ''move_next_word'',
      ''move_doc_start'', ''move_doc_end'']"

text \<open>
  \<open>{k: action for action, keys in key_bindings.items() for k in keys}\<close>: a key bound
  by two actions keeps the later one.
\<close>

definition invert_bindings :: "(string \<times> key list) list \<Rightarrow> key \<Rightarrow> string option" where
  "invert_bindings bindings =
     map_of (rev (concat (map (\<lambda>(action, keys). map (\<lambda>k. (k, action)) keys) bindings)))"

definition movement_keys :: "(string \<times> key list) list \<Rightarrow> key list" where
  "movement_keys bindings =
     concat (map (\<lambda>action. case map_of bindings action of None \<Rightarrow> [] | Some keys \<Rightarrow> keys)
                 movement_actions)"

text \<open>
  \<open>Editor.__init__\<close>. The file is read when a name is given, the file exists and the
  editor is not in memory; a missing or empty file leaves one empty line.
\<close>

definition Editor_init ::
    "env \<Rightarrow> pystr option \<Rightarrow> (string \<times> key list) list option \<Rightarrow> bool \<Rightarrow> error + editor" where
  "Editor_init ev fname key_bindings in_mem =
     (case (if fname \<noteq> None \<and> fname \<noteq> Some [] \<and> path_exists ev (the fname) \<and> \<not> in_mem
            then (case read_lines ev (the fname) of
                    Inl e \<Rightarrow> Inl e
                  | Inr ls \<Rightarrow> map_err (\<lambda>line. GapBuffer_init (rstrip_nl line)) ls)
            else Inr []) of
        Inl e \<Rightarrow> Inl e
      | Inr buf0 \<Rightarrow>
          (case (if buf0 = [] then map_err GapBuffer_init [[]] else Inr buf0) of
             Inl e \<Rightarrow> Inl e
           | Inr buf \<Rightarrow>
               let bindings =
                     (case key_bindings of
                        None \<Rightarrow> DEFAULT_KEY_BINDINGS
                      | Some kb \<Rightarrow> if kb = [] then DEFAULT_KEY_BINDINGS
                                   else dict_update DEFAULT_KEY_BINDINGS kb)
               in Inr \<lparr>filename = fname, in_memory = in_mem, buffer_lines = buf,
                        cursor_x = 0, cursor_y = 0, running = True, is_dirty = False,
                        status_message = HELP_STATUS, help_mode = False,
                        selection_start_x = - 1, selection_start_y = - 1,
                        is_selecting = False, clipboard = [],
                        action_map = invert_bindings bindings,
                        plain_movement_keys =
                          filter (\<lambda>k. \<not> shift_in_name k) (movement_keys bindings),
                        shift_movement_keys =
                          filter shift_in_name (movement_keys bindings)\<rparr>))"

definition line_len :: "editor \<Rightarrow> int \<Rightarrow> error + int" where
  "line_len e y = (case py_index (buffer_lines e) y of Inl err \<Rightarrow> Inl err | Inr gb \<Rightarrow> Inr (gb_len gb))"

definition clamp_cursor :: "editor \<Rightarrow> error + editor" where
  "clamp_cursor e =
     (let cy = max 0 (min (cursor_y e) (int (length (buffer_lines e)) - 1))
      in case line_len e cy of
           Inl err \<Rightarrow> Inl err
         | Inr n \<Rightarrow> Inr (e\<lparr>cursor_y := cy, cursor_x := max 0 (min (cursor_x e) n)\<rparr>))"

text \<open>
  \<open>prompt\<close> reads keys until Enter or Escape. \<open>keys\<close> are the keys the decoder is going
  to return; when they run out the read blocks and the call does not return, which is
  \<open>None\<close>. Each round sets the status message and renders; when the prompt returns the
  status message is empty.
\<close>

fun prompt_loop ::
    "pystr \<Rightarrow> keypress list \<Rightarrow> (error + pystr option \<times> keypress list) option" where
  "prompt_loop user_input [] = None"
| "prompt_loop user_input ((k, char) # keys) =
     (if k = ENTER then Some (Inr (if user_input \<noteq> [] then Some user_input else None, keys))
      else if k = BACKSPACE then prompt_loop (py_slice user_input None (Some (- 1))) keys
      else if k = ESCAPE then Some (Inr (None, keys))
      else if k = CHAR_KEY then
        (case char of
           None \<Rightarrow> Some (Inl TypeError)
         | Some c \<Rightarrow> prompt_loop (user_input @ c) keys)
      else prompt_loop user_input keys)"

definition prompt ::
    "editor \<Rightarrow> pystr \<Rightarrow> keypress list
       \<Rightarrow> (error + editor \<times> pystr option \<times> keypress list) option" where
  "prompt e prompt_msg keys =
     (case prompt_loop [] keys of
        None \<Rightarrow> None
      | Some (Inl err) \<Rightarrow> Some (Inl err)
      | Some (Inr (answer, keys')) \<Rightarrow> Some (Inr (e\<lparr>status_message := []\<rparr>, answer, keys')))"

definition get_selection :: "editor \<Rightarrow> (int \<times> int \<times> int \<times> int) option" where
  "get_selection e =
     (if \<not> is_selecting e \<or> selection_start_y e = - 1 then None
      else
        let start_y = min (selection_start_y e) (cursor_y e);
            end_y = max (selection_start_y e) (cursor_y e);
            xs = (if selection_start_y e = cursor_y e
                  then (min (selection_start_x e) (cursor_x e),
                        max (selection_start_x e) (cursor_x e))
                  else if selection_start_y e < cursor_y e
                  then (selection_start_x e, cursor_x e)
                  else (cursor_x e, selection_start_x e))
        in Some (start_y, fst xs, end_y, snd xs))"

definition copy_selection :: "env \<Rightarrow> editor \<Rightarrow> error + editor" where
  "copy_selection ev e =
     (case get_selection e of
        None \<Rightarrow> Inr e
      | Some (start_y, start_x, end_y, end_x) \<Rightarrow>
          (case (if start_y = end_y
                 then (case py_index (buffer_lines e) start_y of
                         Inl err \<Rightarrow> Inl err
                       | Inr gb \<Rightarrow> Inr (get_slice gb (Some start_x) (Some end_x)))
                 else (case py_index (buffer_lines e) start_y of
                         Inl err \<Rightarrow> Inl err
                       | Inr gb0 \<Rightarrow>
                           (case map_err (\<lambda>i. case py_index (buffer_lines e) i of
                                                 Inl err \<Rightarrow> Inl err
                                               | Inr gb \<Rightarrow> Inr (to_string gb))
                                         [start_y + 1 .. end_y - 1] of
                              Inl err \<Rightarrow> Inl err
                            | Inr mid \<Rightarrow>
                                (case py_index (buffer_lines e) end_y of
                                   Inl err \<Rightarrow> Inl err
                                 | Inr gb1 \<Rightarrow>
                                     Inr (join_nl ([get_slice gb0 (Some start_x) None] @ mid
                                                   @ [get_slice gb1 (Some 0) (Some end_x)])))))) of
             Inl err \<Rightarrow> Inl err
           | Inr text \<Rightarrow>
               (case (if \<not> IS_UNIX ev then set_clip_text_ps ev text else None) of
                  Some err \<Rightarrow> Inl err
                | None \<Rightarrow>
                    Inr (e\<lparr>clipboard := text,
                           status_message := cps ''Copied to clipboard.''\<rparr>))))"

definition delete_selection :: "editor \<Rightarrow> error + editor" where
  "delete_selection e =
     (case get_selection e of
        None \<Rightarrow> Inr e
      | Some (start_y, start_x, end_y, end_x) \<Rightarrow>
          (case (if start_y = end_y
                 then (case py_index (buffer_lines e) start_y of
                         Inl err \<Rightarrow> Inl err
                       | Inr gb \<Rightarrow>
                           (case gb_delete gb start_x (end_x - start_x) of
                              Inl err \<Rightarrow> Inl err
                            | Inr gb' \<Rightarrow>
                                (case py_setitem (buffer_lines e) start_y gb' of
                                   Inl err \<Rightarrow> Inl err
                                 | Inr buf \<Rightarrow> Inr (e\<lparr>buffer_lines := buf, cursor_x := start_x\<rparr>))))
                 else (case py_index (buffer_lines e) start_y of
                         Inl err \<Rightarrow> Inl err
                       | Inr gb0 \<Rightarrow>
                           (case py_index (buffer_lines e) end_y of
                              Inl err \<Rightarrow> Inl err
                            | Inr gb1 \<Rightarrow>
                                (case GapBuffer_init (get_slice gb0 (Some 0) (Some start_x)
                                                      @ get_slice gb1 (Some end_x) None) of
                                   Inl err \<Rightarrow> Inl err
                                 | Inr merged \<Rightarrow>
                                     (case py_setitem (buffer_lines e) start_y merged of
                                        Inl err \<Rightarrow> Inl err
                                      | Inr buf \<Rightarrow>
                                          Inr (e\<lparr>buffer_lines :=
                                                   py_del_slice buf (start_y + 1) (end_y + 1),
                                                 cursor_x := start_x\<rparr>)))))) of
             Inl err \<Rightarrow> Inl err
           | Inr e' \<Rightarrow> Inr (e'\<lparr>cursor_y := start_y, is_dirty := True, is_selecting := False\<rparr>)))"

subsection \<open>Saving\<close>

definition QUOTE :: nat where
  "QUOTE = 0x22"

text \<open>The \<open>try\<close> block of \<open>save_file\<close>, for the file name \<open>fn\<close>.\<close>

definition save_write :: "env \<Rightarrow> editor \<Rightarrow> pystr \<Rightarrow> error + bool \<times> editor" where
  "save_write ev e fn =
     (case write_file ev fn (join_nl (map to_string (buffer_lines e))) of
        None \<Rightarrow>
          Inr (True,
               e\<lparr>is_dirty := False,
                 status_message := cps ''Saved '' @ str_of_nat (length (buffer_lines e))
                                   @ cps '' lines to '' @ [QUOTE] @ fn @ [QUOTE] @ cps ''.''\<rparr>)
      | Some err \<Rightarrow>
          (case as_OSError err of
             Some msg \<Rightarrow> Inr (False, e\<lparr>status_message := cps ''Error saving: '' @ msg\<rparr>)
           | None \<Rightarrow> Inl err))"

text \<open>\<open>save_file\<close> from the test of \<open>os.path.exists\<close> on, the file name being set.\<close>

definition save_confirm ::
    "env \<Rightarrow> editor \<Rightarrow> pystr \<Rightarrow> keypress list
       \<Rightarrow> (error + bool \<times> editor \<times> keypress list) option" where
  "save_confirm ev e fn keys =
     (if path_exists ev fn then
        (case prompt e (cps ''File '' @ [QUOTE] @ fn @ [QUOTE]
                        @ cps '' already exists. Overwrite? (y/N): '') keys of
           None \<Rightarrow> None
         | Some (Inl err) \<Rightarrow> Some (Inl err)
         | Some (Inr (e1, overwrite, keys1)) \<Rightarrow>
             if overwrite = None \<or> \<not> startswith (lower (the overwrite)) (cps ''y'')
             then Some (Inr (False, e1\<lparr>status_message := cps ''Save cancelled.''\<rparr>, keys1))
             else (case save_write ev e1 fn of
                     Inl err \<Rightarrow> Some (Inl err)
                   | Inr (ok, e2) \<Rightarrow> Some (Inr (ok, e2, keys1))))
      else (case save_write ev e fn of
              Inl err \<Rightarrow> Some (Inl err)
            | Inr (ok, e2) \<Rightarrow> Some (Inr (ok, e2, keys))))"

definition save_file ::
    "env \<Rightarrow> editor \<Rightarrow> keypress list \<Rightarrow> (error + bool \<times> editor \<times> keypress list) option" where
  "save_file ev e keys =
     (if in_memory e then
        Some (Inr (True,
                   e\<lparr>status_message := cps ''In-memory mode: Save not applicable.'',
                     is_dirty := False\<rparr>,
                   keys))
      else
        case filename e of
          Some (c # cs) \<Rightarrow> save_confirm ev e (c # cs) keys
        | _ \<Rightarrow>
            (case prompt e (cps ''Save as: '') keys of
               None \<Rightarrow> None
             | Some (Inl err) \<Rightarrow> Some (Inl err)
             | Some (Inr (e1, new_filename, keys1)) \<Rightarrow>
                 (case new_filename of
                    None \<Rightarrow> Some (Inr (False, e1\<lparr>status_message := cps ''Save cancelled.''\<rparr>, keys1))
                  | Some fn \<Rightarrow> save_confirm ev (e1\<lparr>filename := Some fn\<rparr>) fn keys1)))"

subsection \<open>Word movement\<close>

text \<open>
  \<open>while x < len(line) and p(line[x]): x += 1\<close> and
  \<open>while x > 0 and p(line[x-1]): x -= 1\<close>. \<open>str.isspace\<close> reads the Unicode character
  database and is a field of the environment.
\<close>

function scan_forward :: "(nat \<Rightarrow> bool) \<Rightarrow> pystr \<Rightarrow> int \<Rightarrow> error + int" where
  "scan_forward p line x =
     (if x < int (length line) then
        (case py_index line x of
           Inl err \<Rightarrow> Inl err
         | Inr c \<Rightarrow> if p c then scan_forward p line (x + 1) else Inr x)
      else Inr x)"
  by pat_completeness auto
termination
  by (relation "measure (\<lambda>(p, line, x). nat (int (length line) - x))") auto

function scan_backward :: "(nat \<Rightarrow> bool) \<Rightarrow> pystr \<Rightarrow> int \<Rightarrow> error + int" where
  "scan_backward p line x =
     (if 0 < x then
        (case py_index line (x - 1) of
           Inl err \<Rightarrow> Inl err
         | Inr c \<Rightarrow> if p c then scan_backward p line (x - 1) else Inr x)
      else Inr x)"
  by pat_completeness auto
termination
  by (relation "measure (\<lambda>(p, line, x). nat x)") auto

definition find_next_word :: "env \<Rightarrow> editor \<Rightarrow> error + editor" where
  "find_next_word ev e =
     (case py_index (buffer_lines e) (cursor_y e) of
        Inl err \<Rightarrow> Inl err
      | Inr gb \<Rightarrow>
          let line = to_string gb in
          (case scan_forward (\<lambda>c. \<not> isspace ev c) line (cursor_x e) of
             Inl err \<Rightarrow> Inl err
           | Inr x1 \<Rightarrow>
               (case scan_forward (isspace ev) line x1 of
                  Inl err \<Rightarrow> Inl err
                | Inr x \<Rightarrow>
                    Inr (if int (length line) \<le> x then
                           (if cursor_y e < int (length (buffer_lines e)) - 1
                            then e\<lparr>cursor_y := cursor_y e + 1, cursor_x := 0\<rparr>
                            else e\<lparr>cursor_x := int (length line)\<rparr>)
                         else e\<lparr>cursor_x := x\<rparr>))))"

definition find_prev_word :: "env \<Rightarrow> editor \<Rightarrow> error + editor" where
  "find_prev_word ev e =
     (if cursor_x e = 0 \<and> 0 < cursor_y e then
        (case line_len e (cursor_y e - 1) of
           Inl err \<Rightarrow> Inl err
         | Inr n \<Rightarrow> Inr (e\<lparr>cursor_y := cursor_y e - 1, cursor_x := n\<rparr>))
      else
        case py_index (buffer_lines e) (cursor_y e) of
          Inl err \<Rightarrow> Inl err
        | Inr gb \<Rightarrow>
            let line = to_string gb in
            (case scan_backward (isspace ev) line (cursor_x e - 1) of
               Inl err \<Rightarrow> Inl err
             | Inr x1 \<Rightarrow>
                 (case scan_backward (\<lambda>c. \<not> isspace ev c) line x1 of
                    Inl err \<Rightarrow> Inl err
                  | Inr x \<Rightarrow> Inr (e\<lparr>cursor_x := x\<rparr>))))"

subsection \<open>Editing actions\<close>

text \<open>A method that mutates the line \<open>self.buffer[y]\<close> in place.\<close>

definition with_line ::
    "editor \<Rightarrow> int \<Rightarrow> (gapbuffer \<Rightarrow> error + gapbuffer) \<Rightarrow> error + editor" where
  "with_line e y f =
     (case py_index (buffer_lines e) y of
        Inl err \<Rightarrow> Inl err
      | Inr gb \<Rightarrow>
          (case f gb of
             Inl err \<Rightarrow> Inl err
           | Inr gb' \<Rightarrow>
               (case py_setitem (buffer_lines e) y gb' of
                  Inl err \<Rightarrow> Inl err
                | Inr buf \<Rightarrow> Inr (e\<lparr>buffer_lines := buf\<rparr>))))"

text \<open>\<open>for i, line in enumerate(ls, i0): self.buffer.insert(y + i, line)\<close>.\<close>

fun insert_all :: "'a list \<Rightarrow> int \<Rightarrow> int \<Rightarrow> 'a list \<Rightarrow> 'a list" where
  "insert_all buf y i [] = buf"
| "insert_all buf y i (l # ls) = insert_all (py_list_insert buf (y + i) l) y (i + 1) ls"

text \<open>
  The paste branch of \<open>handle_keypress\<close>. \<open>clipboard.split('\n')\<close> has at least one
  segment, so its first and last segments exist.
\<close>

definition paste :: "env \<Rightarrow> editor \<Rightarrow> error + editor" where
  "paste ev e0 =
     (case (if \<not> IS_UNIX ev
            then (case get_clip_text_ps ev of
                    Inl err \<Rightarrow> Inl err
                  | Inr t \<Rightarrow> Inr (e0\<lparr>clipboard := t\<rparr>))
            else Inr e0) of
        Inl err \<Rightarrow> Inl err
      | Inr e1 \<Rightarrow>
          (case (if is_selecting e1 then delete_selection e1 else Inr e1) of
             Inl err \<Rightarrow> Inl err
           | Inr e2 \<Rightarrow>
               let lines = split_nl (clipboard e2) in
               (case (if length lines = 1 then
                        (case with_line e2 (cursor_y e2)
                                (\<lambda>gb. gb_insert gb (hd lines) (cursor_x e2)) of
                           Inl err \<Rightarrow> Inl err
                         | Inr e3 \<Rightarrow>
                             Inr (e3\<lparr>cursor_x := cursor_x e3 + int (length (hd lines))\<rparr>))
                      else
                        (case py_index (buffer_lines e2) (cursor_y e2) of
                           Inl err \<Rightarrow> Inl err
                         | Inr current_line \<Rightarrow>
                             let line_remainder =
                                   get_slice current_line (Some (cursor_x e2)) None in
                             (case gb_delete current_line (cursor_x e2)
                                     (gb_len current_line - cursor_x e2) of
                                Inl err \<Rightarrow> Inl err
                              | Inr cl1 \<Rightarrow>
                                  (case gb_insert cl1 (hd lines) (cursor_x e2) of
                                     Inl err \<Rightarrow> Inl err
                                   | Inr cl2 \<Rightarrow>
                                       (case py_setitem (buffer_lines e2) (cursor_y e2) cl2 of
                                          Inl err \<Rightarrow> Inl err
                                        | Inr buf \<Rightarrow>
                                            (case map_err GapBuffer_init
                                                    (py_slice lines (Some 1) (Some (- 1))) of
                                               Inl err \<Rightarrow> Inl err
                                             | Inr new_lines \<Rightarrow>
                                                 (case GapBuffer_init
                                                         (last lines @ line_remainder) of
                                                    Inl err \<Rightarrow> Inl err
                                                  | Inr last_line \<Rightarrow>
                                                      Inr (e2\<lparr>buffer_lines :=
                                                               insert_all buf (cursor_y e2) 1
                                                                 (new_lines @ [last_line]),
                                                             cursor_y := cursor_y e2
                                                               + (int (length lines) - 1),
                                                             cursor_x :=
                                                               int (length (last lines))\<rparr>)))))))) of
                  Inl err \<Rightarrow> Inl err
                | Inr e3 \<Rightarrow> Inr (e3\<lparr>is_dirty := True\<rparr>))))"

definition move_left :: "editor \<Rightarrow> error + editor" where
  "move_left e =
     (if 0 < cursor_x e then Inr (e\<lparr>cursor_x := cursor_x e - 1\<rparr>)
      else if 0 < cursor_y e then
        (case line_len e (cursor_y e - 1) of
           Inl err \<Rightarrow> Inl err
         | Inr n \<Rightarrow> Inr (e\<lparr>cursor_y := cursor_y e - 1, cursor_x := n\<rparr>))
      else Inr e)"

definition move_right :: "editor \<Rightarrow> error + editor" where
  "move_right e =
     (case line_len e (cursor_y e) of
        Inl err \<Rightarrow> Inl err
      | Inr n \<Rightarrow>
          if cursor_x e < n then Inr (e\<lparr>cursor_x := cursor_x e + 1\<rparr>)
          else if cursor_y e < int (length (buffer_lines e)) - 1
          then Inr (e\<lparr>cursor_y := cursor_y e + 1, cursor_x := 0\<rparr>)
          else Inr e)"

definition move_end :: "editor \<Rightarrow> error + editor" where
  "move_end e =
     (case line_len e (cursor_y e) of
        Inl err \<Rightarrow> Inl err
      | Inr n \<Rightarrow> Inr (e\<lparr>cursor_x := n\<rparr>))"

definition move_doc_end :: "editor \<Rightarrow> error + editor" where
  "move_doc_end e =
     (let y = int (length (buffer_lines e)) - 1
      in case line_len e y of
           Inl err \<Rightarrow> Inl err
         | Inr n \<Rightarrow> Inr (e\<lparr>cursor_y := y, cursor_x := n\<rparr>))"

definition delete_back :: "editor \<Rightarrow> error + editor" where
  "delete_back e0 =
     (let e = e0\<lparr>is_dirty := True\<rparr> in
      if 0 < cursor_x e then
        (case with_line e (cursor_y e) (\<lambda>gb. gb_delete gb (cursor_x e - 1) 1) of
           Inl err \<Rightarrow> Inl err
         | Inr e1 \<Rightarrow> Inr (e1\<lparr>cursor_x := cursor_x e1 - 1\<rparr>))
      else if 0 < cursor_y e then
        (case py_pop (buffer_lines e) (cursor_y e) of
           Inl err \<Rightarrow> Inl err
         | Inr (gb, buf) \<Rightarrow>
             let line_content = to_string gb;
                 e1 = e\<lparr>buffer_lines := buf, cursor_y := cursor_y e - 1\<rparr>
             in (case line_len e1 (cursor_y e1) of
                   Inl err \<Rightarrow> Inl err
                 | Inr n \<Rightarrow>
                     with_line (e1\<lparr>cursor_x := n\<rparr>) (cursor_y e1)
                       (\<lambda>g. gb_insert g line_content n)))
      else Inr e)"

definition delete_forward :: "editor \<Rightarrow> error + editor" where
  "delete_forward e0 =
     (let e = e0\<lparr>is_dirty := True\<rparr> in
      case line_len e (cursor_y e) of
        Inl err \<Rightarrow> Inl err
      | Inr n \<Rightarrow>
          if cursor_x e < n then with_line e (cursor_y e) (\<lambda>gb. gb_delete gb (cursor_x e) 1)
          else if cursor_y e < int (length (buffer_lines e)) - 1 then
            (case py_pop (buffer_lines e) (cursor_y e + 1) of
               Inl err \<Rightarrow> Inl err
             | Inr (gb, buf) \<Rightarrow>
                 with_line (e\<lparr>buffer_lines := buf\<rparr>) (cursor_y e)
                   (\<lambda>g. gb_insert g (to_string gb) (cursor_x e)))
          else Inr e)"

definition insert_newline :: "editor \<Rightarrow> error + editor" where
  "insert_newline e0 =
     (let e = e0\<lparr>is_dirty := True\<rparr> in
      case py_index (buffer_lines e) (cursor_y e) of
        Inl err \<Rightarrow> Inl err
      | Inr current_line \<Rightarrow>
          let line_remainder = get_slice current_line (Some (cursor_x e)) None in
          (case gb_delete current_line (cursor_x e) (gb_len current_line - cursor_x e) of
             Inl err \<Rightarrow> Inl err
           | Inr cl1 \<Rightarrow>
               (case py_setitem (buffer_lines e) (cursor_y e) cl1 of
                  Inl err \<Rightarrow> Inl err
                | Inr buf \<Rightarrow>
                    (case GapBuffer_init line_remainder of
                       Inl err \<Rightarrow> Inl err
                     | Inr new_line \<Rightarrow>
                         Inr (e\<lparr>buffer_lines := py_list_insert buf (cursor_y e + 1) new_line,
                                cursor_y := cursor_y e + 1, cursor_x := 0\<rparr>)))))"

text \<open>
  \<open>insert_char\<close>: the decoder passes \<open>None\<close> as \<open>char\<close> with every key but \<open>CHAR\<close>;
  \<open>insert\<close> then moves the gap and fails on \<open>text.encode\<close>.
\<close>

definition insert_char :: "editor \<Rightarrow> pystr option \<Rightarrow> error + editor" where
  "insert_char e0 char =
     (let e = e0\<lparr>is_dirty := True\<rparr> in
      case char of
        None \<Rightarrow>
          (case with_line e (cursor_y e) (\<lambda>gb. move_gap gb (cursor_x e)) of
             Inl err \<Rightarrow> Inl err
           | Inr e1 \<Rightarrow> Inl AttributeError)
      | Some c \<Rightarrow>
          (case with_line e (cursor_y e) (\<lambda>gb. gb_insert gb c (cursor_x e)) of
             Inl err \<Rightarrow> Inl err
           | Inr e1 \<Rightarrow> Inr (e1\<lparr>cursor_x := cursor_x e1 + int (length c)\<rparr>)))"

subsection \<open>The dispatcher: handle\_keypress\<close>

definition editing_actions :: "string list" where
  "editing_actions = [''delete_back'', ''delete_forward'', ''insert_newline'', ''insert_char'']"

text \<open>The \<open>quit\<close> branch, which returns without clamping the cursor.\<close>

definition quit ::
    "env \<Rightarrow> editor \<Rightarrow> keypress list \<Rightarrow> (error + editor \<times> keypress list) option" where
  "quit ev e keys =
     (if is_dirty e \<and> \<not> in_memory e then
        (case prompt e (cps ''Save changes before quitting? (y/n): '') keys of
           None \<Rightarrow> None
         | Some (Inl err) \<Rightarrow> Some (Inl err)
         | Some (Inr (e1, response, keys1)) \<Rightarrow>
             if response \<noteq> None \<and> lower (the response) = cps ''y'' then
               (case save_file ev e1 keys1 of
                  None \<Rightarrow> None
                | Some (Inl err) \<Rightarrow> Some (Inl err)
                | Some (Inr (ok, e2, keys2)) \<Rightarrow>
                    Some (Inr (if ok then e2\<lparr>running := False\<rparr> else e2, keys2)))
             else if response \<noteq> None \<and> lower (the response) = cps ''n''
             then Some (Inr (e1\<lparr>running := False\<rparr>, keys1))
             else Some (Inr (e1, keys1)))
      else Some (Inr (e\<lparr>running := False\<rparr>, keys)))"

text \<open>
  The branches from \<open>toggle_help\<close> to \<open>insert_char\<close> but \<open>save\<close>, in the order of the
  source; an action of no branch, or no action, changes nothing.
\<close>

definition do_action :: "env \<Rightarrow> string option \<Rightarrow> pystr option \<Rightarrow> editor \<Rightarrow> error + editor" where
  "do_action ev action char e =
     (if action = Some ''toggle_help'' then Inr (e\<lparr>help_mode := \<not> help_mode e\<rparr>)
      else if action = Some ''copy'' then copy_selection ev e
      else if action = Some ''cut'' then
        (case copy_selection ev e of Inl err \<Rightarrow> Inl err | Inr e1 \<Rightarrow> delete_selection e1)
      else if action = Some ''paste'' then paste ev e
      else if action = Some ''move_up'' then Inr (e\<lparr>cursor_y := cursor_y e - 1\<rparr>)
      else if action = Some ''move_down'' then Inr (e\<lparr>cursor_y := cursor_y e + 1\<rparr>)
      else if action = Some ''move_left'' then move_left e
      else if action = Some ''move_right'' then move_right e
      else if action = Some ''move_home'' then Inr (e\<lparr>cursor_x := 0\<rparr>)
      else if action = Some ''move_end'' then move_end e
      else if action = Some ''move_page_up''
      then Inr (e\<lparr>cursor_y := cursor_y e - (snd (get_terminal_size ev) - 2)\<rparr>)
      else if action = Some ''move_page_down''
      then Inr (e\<lparr>cursor_y := cursor_y e + (snd (get_terminal_size ev) - 2)\<rparr>)
      else if action = Some ''move_prev_word'' then find_prev_word ev e
      else if action = Some ''move_next_word'' then find_next_word ev e
      else if action = Some ''move_doc_start'' then Inr (e\<lparr>cursor_y := 0, cursor_x := 0\<rparr>)
      else if action = Some ''move_doc_end'' then move_doc_end e
      else if action = Some ''delete_back'' then delete_back e
      else if action = Some ''delete_forward'' then delete_forward e
      else if action = Some ''insert_newline'' then insert_newline e
      else if action = Some ''insert_char'' then insert_char e char
      else Inr e)"

definition handle_keypress ::
    "env \<Rightarrow> editor \<Rightarrow> key \<Rightarrow> pystr option \<Rightarrow> keypress list
       \<Rightarrow> (error + editor \<times> keypress list) option" where
  "handle_keypress ev e0 k char keys =
     (let e1 = e0\<lparr>status_message := HELP_STATUS\<rparr>;
          e2 = (if k \<in> set (plain_movement_keys e1) \<and> is_selecting e1
                then e1\<lparr>is_selecting := False\<rparr> else e1);
          e3 = (if k \<in> set (shift_movement_keys e2) \<and> \<not> is_selecting e2
                then e2\<lparr>is_selecting := True, selection_start_x := cursor_x e2,
                        selection_start_y := cursor_y e2\<rparr>
                else e2);
          action = action_map e3 k
      in case (if is_selecting e3 \<and> action \<in> Some ` set editing_actions
               then delete_selection e3 else Inr e3) of
           Inl err \<Rightarrow> Some (Inl err)
         | Inr e4 \<Rightarrow>
             if action = Some ''quit'' then quit ev e4 keys
             else if action = Some ''save'' then
               (case save_file ev e4 keys of
                  None \<Rightarrow> None
                | Some (Inl err) \<Rightarrow> Some (Inl err)
                | Some (Inr (ok, e5, keys1)) \<Rightarrow>
                    (case clamp_cursor e5 of
                       Inl err \<Rightarrow> Some (Inl err)
                     | Inr e6 \<Rightarrow> Some (Inr (e6, keys1))))
             else
               (case do_action ev action char e4 of
                  Inl err \<Rightarrow> Some (Inl err)
                | Inr e5 \<Rightarrow>
                    (case clamp_cursor e5 of
                       Inl err \<Rightarrow> Some (Inl err)
                     | Inr e6 \<Rightarrow> Some (Inr (e6, keys)))))"

section \<open>The reference model of the specification\<close>

text \<open>
  The naive string model that the specification compares the gap buffer with: at a
  valid character position an insertion splices the text into the string
  (\<open>s[:pos] + text + s[pos:]\<close>) and a deletion cuts the range out
  (\<open>s[:pos] + s[pos + n:]\<close>).
\<close>

definition ref_insert :: "pystr \<Rightarrow> pystr \<Rightarrow> int \<Rightarrow> pystr" where
  "ref_insert s text pos = py_slice s None (Some pos) @ text @ py_slice s (Some pos) None"

definition ref_delete :: "pystr \<Rightarrow> int \<Rightarrow> int \<Rightarrow> pystr" where
  "ref_delete s pos n = py_slice s None (Some pos) @ py_slice s (Some (pos + n)) None"

section \<open>Well-formed buffers\<close>

text \<open>
  The bytes \<open>to_string\<close> decodes: those before the gap followed by those behind it.
\<close>

definition gb_bytes :: "gapbuffer \<Rightarrow> pybytes" where
  "gb_bytes gb =
     py_slice (buffer gb) None (Some (gap_start gb)) @ py_slice (buffer gb) (Some (gap_end gb)) None"

text \<open>The gap lies inside the byte array.\<close>

definition gb_wf :: "gapbuffer \<Rightarrow> bool" where
  "gb_wf gb \<longleftrightarrow>
     0 \<le> gap_start gb \<and> gap_start gb \<le> gap_end gb \<and> gap_end gb \<le> int (length (buffer gb))"

text \<open>
  \<open>holds gb s\<close>: the buffer is well formed and its content bytes are the UTF-8 encoding
  of the string \<open>s\<close>.
\<close>

definition holds :: "gapbuffer \<Rightarrow> pystr \<Rightarrow> bool" where
  "holds gb s \<longleftrightarrow> gb_wf gb \<and> list_all encodable s \<and> gb_bytes gb = utf8_bytes s"

text \<open>
  The layout of a well-formed buffer: the bytes \<open>A\<close> before the gap, the gap \<open>G\<close>, the
  bytes \<open>B\<close> behind it.
\<close>

definition gap_layout :: "gapbuffer \<Rightarrow> pybytes \<Rightarrow> pybytes \<Rightarrow> pybytes \<Rightarrow> bool" where
  "gap_layout gb A G B \<longleftrightarrow>
     buffer gb = A @ G @ B \<and> gap_start gb = int (length A)
     \<and> gap_end gb = int (length A + length G)"

section \<open>What the specification observes of an editor\<close>

text \<open>The document as the list of its lines' texts.\<close>

definition document :: "editor \<Rightarrow> pystr list" where
  "document e = map to_string (buffer_lines e)"

text \<open>
  The invariant of the specification: the document has a line, the cursor's line index
  is one of the document and its character offset lies within that line or at its end.
\<close>

definition cursor_in_document :: "editor \<Rightarrow> bool" where
  "cursor_in_document e \<longleftrightarrow>
     buffer_lines e \<noteq> []
     \<and> 0 \<le> cursor_y e \<and> cursor_y e < int (length (buffer_lines e))
     \<and> 0 \<le> cursor_x e \<and> cursor_x e \<le> gb_len (buffer_lines e ! nat (cursor_y e))"

text \<open>The editor after a call of \<open>handle_keypress\<close> that returned; \<open>None\<close> otherwise.\<close>

definition completed :: "(error + editor \<times> keypress list) option \<Rightarrow> editor option" where
  "completed r = (case r of Some (Inr (e, keys)) \<Rightarrow> Some e | _ \<Rightarrow> None)"

section \<open>Slices with bounds in range\<close>

lemma take_min_length [simp]: "take (min (length xs) k) xs = take k xs"
  by (simp add: min_def)

lemma drop_min_length [simp]: "drop (min (length xs) k) xs = drop k xs"
  by (simp add: min_def)

lemma py_slice_upto [simp]: "0 \<le> i \<Longrightarrow> py_slice xs None (Some i) = take (nat i) xs"
  by (simp add: py_slice_def slice_bound_def slice_index_def Let_def)

lemma py_slice_from [simp]: "0 \<le> i \<Longrightarrow> py_slice xs (Some i) None = drop (nat i) xs"
  by (simp add: py_slice_def slice_bound_def slice_index_def Let_def)

lemma py_slice_between [simp]:
  "0 \<le> a \<Longrightarrow> a \<le> b \<Longrightarrow> py_slice xs (Some a) (Some b) = take (nat b - nat a) (drop (nat a) xs)"
  by (cases "length xs \<le> nat a"; cases "length xs \<le> nat b")
     (simp_all add: py_slice_def slice_bound_def slice_index_def Let_def min_def)

lemma slice_index_le [simp]: "slice_index n i \<le> n"
  by (auto simp add: slice_index_def)

lemma slice_bound_le [simp]: "d \<le> n \<Longrightarrow> slice_bound n d b \<le> n"
  by (simp add: slice_bound_def split: option.splits)

lemma py_slice_assign_upto [simp]:
  "0 \<le> i \<Longrightarrow> py_slice_assign xs None (Some i) ys = ys @ drop (nat i) xs"
  by (simp add: py_slice_assign_def slice_bound_def slice_index_def Let_def)

lemma py_slice_assign_between [simp]:
  "0 \<le> a \<Longrightarrow> a \<le> b \<Longrightarrow>
   py_slice_assign xs (Some a) (Some b) ys = take (nat a) xs @ ys @ drop (nat b) xs"
  by (cases "length xs \<le> nat a"; cases "length xs \<le> nat b")
     (auto simp add: py_slice_assign_def slice_bound_def slice_index_def Let_def min_def max_def)

lemma py_slice_assign_from [simp]:
  "0 \<le> i \<Longrightarrow> py_slice_assign xs (Some i) None ys = take (nat i) xs @ ys"
  by (simp add: py_slice_assign_def slice_bound_def slice_index_def Let_def max_def)

lemma length_py_slice_assign_from:
  "length (py_slice_assign xs (Some i) None ys) = slice_index (length xs) i + length ys"
  by (simp add: py_slice_assign_def slice_bound_def Let_def max_def)

lemma gb_len_nonneg [simp]: "0 \<le> gb_len gb"
  by (simp add: gb_len_def)


section \<open>Growth of the buffer\<close>

text \<open>
  On a buffer whose gap lies inside the byte array, \<open>_resize_if_needed\<close> with a
  \<open>text_len\<close> larger than the gap leaves a byte array of at least
  \<open>len(self) + max(MIN_GAP_SIZE, text_len, len(self) // 2)\<close> bytes, \<open>len(self)\<close> being
  the number of characters. This says nothing of a buffer whose gap has left the byte
  array, and the number of content bytes may be larger than the bound.
\<close>

lemma resize_if_needed_wf_size:
  assumes "0 \<le> gap_start gb" "gap_start gb \<le> gap_end gb"
    and "gap_end gb \<le> int (length (buffer gb))"
    and "gap_end gb - gap_start gb < text_len"
  shows "gb_len gb + max MIN_GAP_SIZE (max text_len (gb_len gb div 2))
           \<le> int (length (buffer (resize_if_needed gb text_len)))"
proof -
  define g where "g = max MIN_GAP_SIZE (max text_len (gb_len gb div 2))"
  define N where "N = gb_len gb + g"
  define after where "after = int (length (buffer gb)) - gap_end gb"
  define b1 where "b1 = py_slice_assign (bytearray_zeros N) None (Some (gap_start gb))
                            (py_slice (buffer gb) None (Some (gap_start gb)))"
  have g16: "16 \<le> g" by (simp add: g_def MIN_GAP_SIZE_def)
  have N0: "0 \<le> N" using g16 gb_len_nonneg[of gb] by (simp add: N_def)
  have lb1: "N \<le> int (length b1)"
    using assms N0 by (simp add: b1_def bytearray_zeros_def)
  have res: "buffer (resize_if_needed gb text_len) =
      py_slice_assign b1 (Some (N - after)) None (py_slice (buffer gb) (Some (gap_end gb)) None)"
    using assms(4) by (simp add: resize_if_needed_def Let_def g_def N_def after_def b1_def)
  have lY: "int (length (py_slice (buffer gb) (Some (gap_end gb)) None)) = after"
    using assms by (simp add: after_def)
  have "N \<le> int (slice_index (length b1) (N - after)) + after"
    using lb1 N0 assms by (auto simp add: slice_index_def after_def min_def)
  then show ?thesis
    unfolding res length_py_slice_assign_from using lY by (simp add: N_def g_def)
qed

section \<open>UTF-8: decoding what was encoded\<close>

lemma split3:
  fixes c :: nat
  shows "c = (c div 4096) * 4096 + ((c div 64) mod 64) * 64 + c mod 64"
proof -
  have "c div 4096 = c div 64 div 64" by (simp add: div_mult2_eq)
  moreover have "c div 64 = (c div 64 div 64) * 64 + (c div 64) mod 64" by simp
  moreover have "c = (c div 64) * 64 + c mod 64" by simp
  ultimately show ?thesis by linarith
qed

lemma split4:
  fixes c :: nat
  shows "c = (c div 262144) * 262144 + ((c div 4096) mod 64) * 4096
             + ((c div 64) mod 64) * 64 + c mod 64"
proof -
  have "c div 262144 = c div 4096 div 64" by (simp add: div_mult2_eq)
  moreover have "c div 4096 = (c div 4096 div 64) * 64 + (c div 4096) mod 64" by simp
  moreover have "c = (c div 4096) * 4096 + ((c div 64) mod 64) * 64 + c mod 64"
    by (rule split3)
  ultimately show ?thesis by linarith
qed

lemma dec2:
  assumes "2 \<le> h" "h < 32" "l < 64"
  shows "utf8_decode ((0xC0 + h) # (0x80 + l) # rest) = (h * 64 + l) # utf8_decode rest"
  using assms by (simp add: is_cont_def)

lemma dec3:
  assumes "h < 16" "m < 64" "l < 64" "second3_ok (0xE0 + h) (0x80 + m)"
  shows "utf8_decode ((0xE0 + h) # (0x80 + m) # (0x80 + l) # rest)
           = (h * 4096 + m * 64 + l) # utf8_decode rest"
  using assms by (simp add: is_cont_def)

lemma dec4:
  assumes "h < 5" "m1 < 64" "m < 64" "l < 64" "second4_ok (0xF0 + h) (0x80 + m1)"
  shows "utf8_decode ((0xF0 + h) # (0x80 + m1) # (0x80 + m) # (0x80 + l) # rest)
           = (h * 262144 + m1 * 4096 + m * 64 + l) # utf8_decode rest"
  using assms by (simp add: is_cont_def)

lemma decode_encode_char2:
  assumes "0x80 \<le> c" "c < 0x800"
  shows "utf8_decode ([0xC0 + c div 64, 0x80 + c mod 64] @ rest) = c # utf8_decode rest"
proof -
  have "2 \<le> c div 64" "c div 64 < 32" "c mod 64 < 64" using assms by auto
  then have "utf8_decode ((0xC0 + c div 64) # (0x80 + c mod 64) # rest)
               = (c div 64 * 64 + c mod 64) # utf8_decode rest"
    by (rule dec2)
  then show ?thesis by simp
qed

lemma decode_encode_char3:
  assumes "0x800 \<le> c" "c < 0x10000" "c < 0xD800 \<or> 0xE000 \<le> c"
  shows "utf8_decode ([0xE0 + c div 4096, 0x80 + (c div 64) mod 64, 0x80 + c mod 64] @ rest)
           = c # utf8_decode rest"
proof -
  define h where "h = c div 4096"
  define m where "m = (c div 64) mod 64"
  define l where "l = c mod 64"
  have hb: "h < 16" using assms(2) by (simp add: h_def less_mult_imp_div_less)
  have mb: "m < 64" and lb: "l < 64" by (simp_all add: m_def l_def)
  have c: "c = h * 4096 + m * 64 + l"
    unfolding h_def m_def l_def by (rule split3)
  have e0: "h \<noteq> 0 \<or> 32 \<le> m" using assms(1) c lb by linarith
  have ed: "h \<noteq> 13 \<or> m < 32" using assms(2,3) c lb mb by linarith
  have s: "second3_ok (0xE0 + h) (0x80 + m)"
    using hb mb e0 ed by (auto simp add: second3_ok_def is_cont_def)
  have "utf8_decode ((0xE0 + h) # (0x80 + m) # (0x80 + l) # rest)
          = (h * 4096 + m * 64 + l) # utf8_decode rest"
    using hb mb lb s by (rule dec3)
  then show ?thesis
    unfolding c[symmetric] by (simp add: h_def m_def l_def)
qed

lemma decode_encode_char4:
  assumes "0x10000 \<le> c" "c < 0x110000"
  shows "utf8_decode ([0xF0 + c div 262144, 0x80 + (c div 4096) mod 64,
                       0x80 + (c div 64) mod 64, 0x80 + c mod 64] @ rest)
           = c # utf8_decode rest"
proof -
  define h where "h = c div 262144"
  define m1 where "m1 = (c div 4096) mod 64"
  define m where "m = (c div 64) mod 64"
  define l where "l = c mod 64"
  have hb: "h < 5" using assms(2) by (simp add: h_def less_mult_imp_div_less)
  have mb: "m1 < 64" "m < 64" and lb: "l < 64" by (simp_all add: m1_def m_def l_def)
  have c: "c = h * 262144 + m1 * 4096 + m * 64 + l"
    unfolding h_def m1_def m_def l_def by (rule split4)
  have e0: "h \<noteq> 0 \<or> 16 \<le> m1" using assms(1) c lb mb by linarith
  have e4: "h \<noteq> 4 \<or> m1 < 16" using assms(2) c lb mb by linarith
  have s: "second4_ok (0xF0 + h) (0x80 + m1)"
    using hb mb e0 e4 by (auto simp add: second4_ok_def is_cont_def)
  have "utf8_decode ((0xF0 + h) # (0x80 + m1) # (0x80 + m) # (0x80 + l) # rest)
          = (h * 262144 + m1 * 4096 + m * 64 + l) # utf8_decode rest"
    using hb mb lb s by (rule dec4)
  then show ?thesis
    unfolding c[symmetric] by (simp add: h_def m1_def m_def l_def)
qed

lemma decode_encode_char:
  assumes "encodable c"
  shows "utf8_decode (encode_char c @ rest) = c # utf8_decode rest"
proof -
  have r: "c < 0x110000" and s: "c < 0xD800 \<or> 0xE000 \<le> c"
    using assms by (auto simp add: encodable_def)
  show ?thesis
  proof (cases "c < 0x80")
    case True then show ?thesis by (simp add: encode_char_def)
  next
    case f1: False
    show ?thesis
    proof (cases "c < 0x800")
      case True
      then show ?thesis using f1 decode_encode_char2[of c rest] by (simp add: encode_char_def)
    next
      case f2: False
      show ?thesis
      proof (cases "c < 0x10000")
        case True
        then show ?thesis
          using f1 f2 s decode_encode_char3[of c rest] by (simp add: encode_char_def)
      next
        case False
        then show ?thesis
          using f1 f2 r decode_encode_char4[of c rest] by (simp add: encode_char_def)
      qed
    qed
  qed
qed

lemma decode_utf8_bytes_append:
  "list_all encodable s \<Longrightarrow> utf8_decode (utf8_bytes s @ rest) = s @ utf8_decode rest"
  by (induction s) (simp_all add: utf8_bytes_def decode_encode_char)

lemma decode_utf8_bytes [simp]: "list_all encodable s \<Longrightarrow> utf8_decode (utf8_bytes s) = s"
  using decode_utf8_bytes_append[of s "[]"] by simp

section \<open>UTF-8: what decoding returns can be encoded\<close>

text \<open>
  With \<open>'replace'\<close> the decoder returns only code points that \<open>str.encode\<close> accepts:
  no surrogate and nothing above U+10FFFF. So \<open>_get_byte_pos\<close>, which encodes a slice
  of \<open>to_string()\<close>, never raises.
\<close>

lemma encodable_two_bytes: "b0 < 0xE0 \<Longrightarrow> is_cont b1 \<Longrightarrow> encodable ((b0 - 0xC0) * 64 + (b1 - 0x80))"
  unfolding is_cont_def encodable_def by linarith

lemma encodable_three_bytes:
  "0xE0 \<le> b0 \<Longrightarrow> b0 < 0xF0 \<Longrightarrow> second3_ok b0 b1 \<Longrightarrow> is_cont b2
   \<Longrightarrow> encodable ((b0 - 0xE0) * 4096 + (b1 - 0x80) * 64 + (b2 - 0x80))"
  unfolding is_cont_def encodable_def second3_ok_def
  by (cases "b0 < 0xED"; cases "b0 = 0xED"; cases "b1 < 0xA0"; simp; linarith)

lemma encodable_four_bytes:
  "0xF0 \<le> b0 \<Longrightarrow> b0 < 0xF5 \<Longrightarrow> second4_ok b0 b1 \<Longrightarrow> is_cont b2 \<Longrightarrow> is_cont b3
   \<Longrightarrow> encodable ((b0 - 0xF0) * 262144 + (b1 - 0x80) * 4096 + (b2 - 0x80) * 64 + (b3 - 0x80))"
  unfolding is_cont_def encodable_def second4_ok_def
  by (cases "b0 = 0xF0"; cases "b0 = 0xF4"; cases "b1 < 0x90"; simp; linarith)

lemma encodable_REPLACEMENT [simp]: "encodable REPLACEMENT"
  by (simp add: encodable_def REPLACEMENT_def)

lemma encodable_ascii: "c < 0x80 \<Longrightarrow> encodable c"
  by (simp add: encodable_def)


lemma utf8_decode_two:
  "0xC2 \<le> b0 \<Longrightarrow> b0 < 0xE0 \<Longrightarrow>
   utf8_decode (b0 # rest) =
     (case rest of
        [] \<Rightarrow> [REPLACEMENT]
      | b1 # r1 \<Rightarrow>
          if is_cont b1 then ((b0 - 0xC0) * 64 + (b1 - 0x80)) # utf8_decode r1
          else REPLACEMENT # utf8_decode rest)"
  by simp

lemma utf8_decode_three:
  "0xE0 \<le> b0 \<Longrightarrow> b0 < 0xF0 \<Longrightarrow>
   utf8_decode (b0 # rest) =
        (case rest of
           [] \<Rightarrow> [REPLACEMENT]
         | b1 # r1 \<Rightarrow>
             if \<not> second3_ok b0 b1 then REPLACEMENT # utf8_decode rest
             else (case r1 of
                     [] \<Rightarrow> [REPLACEMENT]
                   | b2 # r2 \<Rightarrow>
                       if is_cont b2
                       then ((b0 - 0xE0) * 4096 + (b1 - 0x80) * 64 + (b2 - 0x80)) # utf8_decode r2
                       else REPLACEMENT # utf8_decode r1))"
  by simp

lemma utf8_decode_four:
  "0xF0 \<le> b0 \<Longrightarrow> b0 < 0xF5 \<Longrightarrow>
   utf8_decode (b0 # rest) =
        (case rest of
           [] \<Rightarrow> [REPLACEMENT]
         | b1 # r1 \<Rightarrow>
             if \<not> second4_ok b0 b1 then REPLACEMENT # utf8_decode rest
             else (case r1 of
                     [] \<Rightarrow> [REPLACEMENT]
                   | b2 # r2 \<Rightarrow>
                       if \<not> is_cont b2 then REPLACEMENT # utf8_decode r1
                       else (case r2 of
                               [] \<Rightarrow> [REPLACEMENT]
                             | b3 # r3 \<Rightarrow>
                                 if is_cont b3
                                 then ((b0 - 0xF0) * 262144 + (b1 - 0x80) * 4096
                                       + (b2 - 0x80) * 64 + (b3 - 0x80)) # utf8_decode r3
                                 else REPLACEMENT # utf8_decode r2)))"
  by simp


lemma decode_encodable [simp]: "list_all encodable (utf8_decode bs)"
proof (induction "length bs" arbitrary: bs rule: less_induct)
  case less
  show ?case
  proof (cases bs)
    case Nil
    then show ?thesis by simp
  next
    case (Cons b0 rest)
    have IH: "list_all encodable (utf8_decode xs)" if "length xs \<le> length rest" for xs
      using less Cons that by simp
    have IH0: "list_all encodable (utf8_decode rest)" by (rule IH) simp
    consider (a) "b0 < 0x80" | (b) "0x80 \<le> b0" "b0 < 0xC2" | (c) "0xC2 \<le> b0" "b0 < 0xE0"
      | (d) "0xE0 \<le> b0" "b0 < 0xF0" | (e) "0xF0 \<le> b0" "b0 < 0xF5" | (f) "0xF5 \<le> b0"
      by linarith
    then show ?thesis
    proof cases
      case a
      then show ?thesis using IH0 Cons by (simp add: encodable_ascii)
    next
      case b
      then show ?thesis using IH0 Cons by simp
    next
      case c
      show ?thesis
      proof (cases rest)
        case Nil
        then show ?thesis using c Cons by (simp add: utf8_decode_two)
      next
        case r: (Cons b1 r1)
        have "list_all encodable (utf8_decode r1)" by (rule IH) (simp add: r)
        then show ?thesis using c Cons r IH0 by (simp add: utf8_decode_two encodable_two_bytes)
      qed
    next
      case d
      show ?thesis
      proof (cases rest)
        case Nil
        then show ?thesis using d Cons by (simp add: utf8_decode_three)
      next
        case r: (Cons b1 r1)
        have I1: "list_all encodable (utf8_decode r1)" by (rule IH) (simp add: r)
        show ?thesis
        proof (cases r1)
          case Nil
          then show ?thesis using d Cons r IH0 by (simp add: utf8_decode_three)
        next
          case r': (Cons b2 r2)
          have "list_all encodable (utf8_decode r2)" by (rule IH) (simp add: r r')
          then show ?thesis using d Cons r r' IH0 I1 by (simp add: utf8_decode_three encodable_three_bytes)
        qed
      qed
    next
      case e
      show ?thesis
      proof (cases rest)
        case Nil
        then show ?thesis using e Cons by (simp add: utf8_decode_four)
      next
        case r: (Cons b1 r1)
        have I1: "list_all encodable (utf8_decode r1)" by (rule IH) (simp add: r)
        show ?thesis
        proof (cases r1)
          case Nil
          then show ?thesis using e Cons r IH0 by (simp add: utf8_decode_four)
        next
          case r': (Cons b2 r2)
          have I2: "list_all encodable (utf8_decode r2)" by (rule IH) (simp add: r r')
          show ?thesis
          proof (cases r2)
            case Nil
            then show ?thesis using e Cons r r' IH0 I1 by (simp add: utf8_decode_four)
          next
            case r'': (Cons b3 r3)
            have "list_all encodable (utf8_decode r3)" by (rule IH) (simp add: r r' r'')
            then show ?thesis using e Cons r r' r'' IH0 I1 I2 by (simp add: utf8_decode_four encodable_four_bytes)
          qed
        qed
      qed
    next
      case f
      then show ?thesis using IH0 Cons by simp
    qed
  qed
qed

section \<open>Growth of a buffer that holds multi-byte characters\<close>

text \<open>
  \<open>_resize_if_needed\<close> sizes the new byte array from \<open>len(self)\<close>,
        the number of
  characters, where the number of content bytes is needed. The lemmas below evaluate the
  class on contents with characters of two and three bytes.
\<close>

lemma str_encode_e_acute: "str_encode [0xE9] = Inr [0xC3, 0xA9]"
  by (simp add: str_encode_def utf8_bytes_def encode_char_def encodable_def)

lemma utf8_bytes_ascii: "\<forall>c \<in> set s. c < 0x80 \<Longrightarrow> utf8_bytes s = s"
  by (induction s) (simp_all add: utf8_bytes_def encode_char_def)

lemma encodable_ascii_all: "\<forall>c \<in> set s. c < 0x80 \<Longrightarrow> list_all encodable s"
  by (induction s) (simp_all add: encodable_def)

lemma str_encode_ascii: "\<forall>c \<in> set s. c < 0x80 \<Longrightarrow> str_encode s = Inr s"
  by (simp add: str_encode_def utf8_bytes_ascii encodable_ascii_all)

lemma utf8_decode_ascii: "\<forall>c \<in> set s. c < 0x80 \<Longrightarrow> utf8_decode s = s"
  by (induction s) simp_all

lemma replicate_18: "replicate 18 x = x # replicate 17 x"
proof -
  have "(18::nat) = Suc 17" by simp
  then show ?thesis by (simp only: replicate_Suc)
qed

lemma to_string_e_acute:
  "to_string \<lparr>buffer = 0xC3 # 0xA9 # replicate 16 0, gap_start = 2,
        gap_end = 18\<rparr> = [0xE9]"
  by (simp add: to_string_def is_cont_def)

lemma GapBuffer_init_e_acute:
  "GapBuffer_init [0xE9]
     = Inr \<lparr>buffer = 0xC3 # 0xA9 # replicate 16 0, gap_start = 2, gap_end = 18\<rparr>"
  by (simp add: GapBuffer_init_def str_encode_e_acute MIN_GAP_SIZE_def bytearray_zeros_def Let_def)

lemma get_byte_pos_e_acute:
  "1 \<le> p \<Longrightarrow>
   get_byte_pos \<lparr>buffer = 0xC3 # 0xA9 # replicate 16 0, gap_start = 2,
        gap_end = 18\<rparr> p = Inr 2"
  by (simp add: get_byte_pos_def to_string_e_acute str_encode_e_acute)

lemma move_gap_e_acute:
  "1 \<le> p \<Longrightarrow>
   move_gap \<lparr>buffer = 0xC3 # 0xA9 # replicate 16 0, gap_start = 2,
        gap_end = 18\<rparr> p
     = Inr \<lparr>buffer = 0xC3 # 0xA9 # replicate 16 0, gap_start = 2, gap_end = 18\<rparr>"
  by (simp add: move_gap_def get_byte_pos_e_acute)

lemma resize_if_needed_e_acute:
  "resize_if_needed \<lparr>buffer = 0xC3 # 0xA9 # replicate 16 0, gap_start = 2,
        gap_end = 18\<rparr> 17
     = \<lparr>buffer = 0xC3 # 0xA9 # replicate 16 0, gap_start = 2, gap_end = 18\<rparr>"
  by (simp add: resize_if_needed_def gb_len_def to_string_e_acute MIN_GAP_SIZE_def
        bytearray_zeros_def Let_def)

lemma gb_insert_e_acute:
  "1 \<le> p \<Longrightarrow>
   gb_insert \<lparr>buffer = 0xC3 # 0xA9 # replicate 16 0, gap_start = 2, gap_end = 18\<rparr>
       (replicate 17 0x61) p
     = Inr \<lparr>buffer = 0xC3 # 0xA9 # replicate 17 0x61, gap_start = 19,
        gap_end = 18\<rparr>"
  by (simp add: gb_insert_def move_gap_e_acute str_encode_ascii resize_if_needed_e_acute Let_def)

lemma to_string_e_acute_grown:
  "to_string \<lparr>buffer = 0xC3 # 0xA9 # replicate 17 0x61, gap_start = 19,
        gap_end = 18\<rparr>
     = 0xE9 # replicate 18 0x61"
  by (simp add: to_string_def is_cont_def utf8_decode_ascii replicate_append_same replicate_18)

text \<open>
  C1. The buffer built from the one character U+00E9 (two bytes) has a gap of 16 bytes.
  Inserting seventeen \<open>'a'\<close> at character position 1, its end, makes
  \<open>_resize_if_needed\<close> allocate \<open>1 + 17 = 18\<close> bytes, which again leaves a gap
  of 16; the seventeen bytes written over it lengthen the byte array by one and move
  \<open>gap_start\<close> past \<open>gap_end\<close>, so the last byte is read twice:
  \<open>get_slice(0, len(buffer))\<close> returns eighteen \<open>'a'\<close> after the first character,
  where the reference model has seventeen.
\<close>

theorem gb_insert_multibyte_not_reference:
  "GapBuffer_init [0xE9]
     = Inr \<lparr>buffer = 0xC3 # 0xA9 # replicate 16 0, gap_start = 2, gap_end = 18\<rparr>
   \<and> gb_insert \<lparr>buffer = 0xC3 # 0xA9 # replicate 16 0, gap_start = 2,
        gap_end = 18\<rparr>
         (replicate 17 0x61) 1
       = Inr \<lparr>buffer = 0xC3 # 0xA9 # replicate 17 0x61, gap_start = 19,
        gap_end = 18\<rparr>
   \<and> get_slice \<lparr>buffer = 0xC3 # 0xA9 # replicate 17 0x61, gap_start = 19,
        gap_end = 18\<rparr>
         (Some 0)
         (Some (gb_len \<lparr>buffer = 0xC3 # 0xA9 # replicate 17 0x61, gap_start = 19,
        gap_end = 18\<rparr>))
       = 0xE9 # replicate 18 0x61
   \<and> ref_insert [0xE9] (replicate 17 0x61) 1 = 0xE9 # replicate 17 0x61"
  by (simp add: GapBuffer_init_e_acute gb_insert_e_acute get_slice_def gb_len_def
        to_string_e_acute_grown ref_insert_def)

text \<open>
  C10. The same buffer, with the insertion asked at character position 5, past the end
  of the one-character content: the call raises nothing, and the content afterwards is
  not the old content followed by the seventeen characters of the text but by eighteen.
\<close>

theorem gb_insert_past_end_multibyte:
  "gb_insert \<lparr>buffer = 0xC3 # 0xA9 # replicate 16 0, gap_start = 2, gap_end = 18\<rparr>
       (replicate 17 0x61) 5
     = Inr \<lparr>buffer = 0xC3 # 0xA9 # replicate 17 0x61, gap_start = 19,
        gap_end = 18\<rparr>
   \<and> to_string \<lparr>buffer = 0xC3 # 0xA9 # replicate 17 0x61, gap_start = 19,
        gap_end = 18\<rparr>
       = 0xE9 # replicate 18 0x61
   \<and> to_string \<lparr>buffer = 0xC3 # 0xA9 # replicate 16 0, gap_start = 2,
        gap_end = 18\<rparr>
         @ replicate 17 0x61
       = 0xE9 # replicate 17 0x61"
  by (simp add: gb_insert_e_acute to_string_e_acute_grown to_string_e_acute)

text \<open>
  The buffer that the insertion of C1 leaves, with \<open>gap_start = 19\<close> past
  \<open>gap_end = 18\<close>, and a second insertion into it, of \<open>'b'\<close> at character position 0.
\<close>

lemma get_byte_pos_grown_0:
  "get_byte_pos \<lparr>buffer = 0xC3 # 0xA9 # replicate 17 0x61, gap_start = 19, gap_end = 18\<rparr> 0
     = Inr 0"
  by (simp add: get_byte_pos_def str_encode_def utf8_bytes_def)

lemma move_gap_grown_0:
  "move_gap \<lparr>buffer = 0xC3 # 0xA9 # replicate 17 0x61, gap_start = 19, gap_end = 18\<rparr> 0
     = Inr \<lparr>buffer = 0xC3 # 0xA9 # replicate 16 0x61 @ 0xC3 # 0xA9 # replicate 17 0x61 @ [0x61],
       gap_start = 0, gap_end = - 1\<rparr>"
  by (simp add: move_gap_def get_byte_pos_grown_0 Let_def)
     (simp add: py_slice_assign_def slice_bound_def slice_index_def Let_def)

lemma to_string_grown_moved:
  "to_string \<lparr>buffer = 0xC3 # 0xA9 # replicate 16 0x61 @ 0xC3 # 0xA9 # replicate 17 0x61 @ [0x61],
       gap_start = 0, gap_end = - 1\<rparr>
     = [0x61]"
  by (simp add: to_string_def py_slice_def slice_bound_def slice_index_def Let_def)

lemma resize_if_needed_grown_moved:
  "resize_if_needed \<lparr>buffer = 0xC3 # 0xA9 # replicate 16 0x61 @ 0xC3 # 0xA9 # replicate 17 0x61 @ [0x61],
       gap_start = 0, gap_end = - 1\<rparr> 1
     = \<lparr>buffer = [0x61], gap_start = 0, gap_end = - 22\<rparr>"
  by (simp add: resize_if_needed_def gb_len_def to_string_grown_moved MIN_GAP_SIZE_def
        bytearray_zeros_def Let_def)
     (simp add: py_slice_assign_def py_slice_def slice_bound_def slice_index_def Let_def)

lemma str_encode_b: "str_encode [0x62] = Inr [0x62]"
  by (simp add: str_encode_def utf8_bytes_def encode_char_def encodable_def)

lemma gb_insert_grown_0:
  "gb_insert \<lparr>buffer = 0xC3 # 0xA9 # replicate 17 0x61, gap_start = 19, gap_end = 18\<rparr> [0x62] 0
     = Inr \<lparr>buffer = [0x62], gap_start = 1, gap_end = - 22\<rparr>"
  by (simp add: gb_insert_def move_gap_grown_0 str_encode_b resize_if_needed_grown_moved Let_def)

text \<open>
  C3. The buffer built from the one character U+00E9, after the insertion of seventeen
  \<open>'a'\<close> at character position 1, holds nineteen characters and its gap has the size
  \<open>18 - 19 = - 1\<close>, so the one byte of \<open>'b'\<close> does not fit. \<open>insert('b', 0)\<close> moves
  the gap, after which \<open>len(self)\<close> is 1, and \<open>_resize_if_needed\<close> allocates
  \<open>1 + 16 = 17\<close> bytes, of which the slice assignment of the bytes behind the gap
  leaves one. The byte array after the insertion has one byte; the bound
  \<open>len(self) + max(MIN_GAP_SIZE, text_len, len(self) // 2)\<close> is \<open>19 + 16 = 35\<close> for the
  content the insertion found and \<open>1 + 16 = 17\<close> for the length that
  \<open>_resize_if_needed\<close> read.
\<close>

theorem gb_insert_capacity_below_bound:
  "gb_insert \<lparr>buffer = 0xC3 # 0xA9 # replicate 16 0, gap_start = 2, gap_end = 18\<rparr>
       (replicate 17 0x61) 1
     = Inr \<lparr>buffer = 0xC3 # 0xA9 # replicate 17 0x61, gap_start = 19, gap_end = 18\<rparr>
   \<and> gb_len \<lparr>buffer = 0xC3 # 0xA9 # replicate 17 0x61, gap_start = 19, gap_end = 18\<rparr> = 19
   \<and> str_encode [0x62] = Inr [0x62]
   \<and> gap_end \<lparr>buffer = 0xC3 # 0xA9 # replicate 17 0x61, gap_start = 19, gap_end = 18\<rparr>
         - gap_start \<lparr>buffer = 0xC3 # 0xA9 # replicate 17 0x61, gap_start = 19, gap_end = 18\<rparr>
       < int (length [0x62::nat])
   \<and> gb_insert \<lparr>buffer = 0xC3 # 0xA9 # replicate 17 0x61, gap_start = 19, gap_end = 18\<rparr> [0x62] 0
       = Inr \<lparr>buffer = [0x62], gap_start = 1, gap_end = - 22\<rparr>
   \<and> int (length (buffer \<lparr>buffer = [0x62], gap_start = 1, gap_end = - 22\<rparr>)) = 1
   \<and> (19::int) + max MIN_GAP_SIZE (max 1 (19 div 2)) = 35
   \<and> (1::int) + max MIN_GAP_SIZE (max 1 (1 div 2)) = 17"
  by (simp add: gb_insert_e_acute gb_insert_grown_0 str_encode_b gb_len_def
        to_string_e_acute_grown MIN_GAP_SIZE_def)

lemma utf8_decode_euro: "utf8_decode (0xE2 # 0x82 # 0xAC # rest) = 0x20AC # utf8_decode rest"
  by (simp add: second3_ok_def is_cont_def)

lemma encode_char_euro: "encode_char 0x20AC = [0xE2, 0x82, 0xAC]"
  by (simp add: encode_char_def)

lemma str_encode_euros:
  "str_encode [0x20AC, 0x20AC, 0x20AC, 0x20AC, 0x20AC, 0x20AC, 0x20AC, 0x20AC, 0x20AC, 0x61]
     = Inr [0xE2, 0x82, 0xAC, 0xE2, 0x82, 0xAC, 0xE2, 0x82, 0xAC, 0xE2, 0x82, 0xAC, 0xE2,
        0x82, 0xAC, 0xE2, 0x82, 0xAC, 0xE2, 0x82, 0xAC, 0xE2, 0x82, 0xAC, 0xE2, 0x82, 0xAC,
        0x61]"
  by (simp add: str_encode_def utf8_bytes_def encode_char_euro encodable_def)
     (simp add: encode_char_def)

lemma GapBuffer_init_euros:
  "GapBuffer_init [0x20AC, 0x20AC, 0x20AC, 0x20AC, 0x20AC, 0x20AC, 0x20AC, 0x20AC, 0x20AC,
        0x61]
     = Inr \<lparr>buffer = 0xE2 # 0x82 # 0xAC # 0xE2 # 0x82 # 0xAC # 0xE2 # 0x82 # 0xAC #
        0xE2 # 0x82 # 0xAC # 0xE2 # 0x82 # 0xAC # 0xE2 # 0x82 # 0xAC # 0xE2 # 0x82 # 0xAC #
        0xE2 # 0x82 # 0xAC # 0xE2 # 0x82 # 0xAC # 0x61 # replicate 16 0,
      gap_start = 28, gap_end = 44\<rparr>"
  by (simp add: GapBuffer_init_def str_encode_euros MIN_GAP_SIZE_def bytearray_zeros_def Let_def)

lemma to_string_euros:
  "to_string \<lparr>buffer = 0xE2 # 0x82 # 0xAC # 0xE2 # 0x82 # 0xAC # 0xE2 # 0x82 #
        0xAC # 0xE2 # 0x82 # 0xAC # 0xE2 # 0x82 # 0xAC # 0xE2 # 0x82 # 0xAC # 0xE2 # 0x82 #
        0xAC # 0xE2 # 0x82 # 0xAC # 0xE2 # 0x82 # 0xAC # 0x61 # replicate 16 0,
      gap_start = 28, gap_end = 44\<rparr>
     = [0x20AC, 0x20AC, 0x20AC, 0x20AC, 0x20AC, 0x20AC, 0x20AC, 0x20AC, 0x20AC, 0x61]"
  by (simp add: to_string_def utf8_decode_euro del: utf8_decode.simps(2)) simp

lemma resize_if_needed_euros:
  "resize_if_needed \<lparr>buffer = 0xE2 # 0x82 # 0xAC # 0xE2 # 0x82 # 0xAC # 0xE2 #
        0x82 # 0xAC # 0xE2 # 0x82 # 0xAC # 0xE2 # 0x82 # 0xAC # 0xE2 # 0x82 # 0xAC # 0xE2 #
        0x82 # 0xAC # 0xE2 # 0x82 # 0xAC # 0xE2 # 0x82 # 0xAC # 0x61 # replicate 16 0,
      gap_start = 28, gap_end = 44\<rparr> 17
     = \<lparr>buffer = [0xE2, 0x82, 0xAC, 0xE2, 0x82, 0xAC, 0xE2, 0x82, 0xAC, 0xE2, 0x82,
        0xAC, 0xE2, 0x82, 0xAC, 0xE2, 0x82, 0xAC, 0xE2, 0x82, 0xAC, 0xE2, 0x82, 0xAC, 0xE2,
        0x82, 0xAC],
      gap_start = 28, gap_end = 27\<rparr>"
  by (simp add: resize_if_needed_def gb_len_def to_string_euros MIN_GAP_SIZE_def
        bytearray_zeros_def Let_def)

lemma to_string_euros_resized:
  "to_string \<lparr>buffer = [0xE2, 0x82, 0xAC, 0xE2, 0x82, 0xAC, 0xE2, 0x82, 0xAC, 0xE2,
        0x82, 0xAC, 0xE2, 0x82, 0xAC, 0xE2, 0x82, 0xAC, 0xE2, 0x82, 0xAC, 0xE2, 0x82, 0xAC,
        0xE2, 0x82, 0xAC],
      gap_start = 28, gap_end = 27\<rparr>
     = [0x20AC, 0x20AC, 0x20AC, 0x20AC, 0x20AC, 0x20AC, 0x20AC, 0x20AC, 0x20AC]"
  by (simp add: to_string_def utf8_decode_euro del: utf8_decode.simps(2))

text \<open>
  C9. The buffer built from nine U+20AC (three bytes each) and an \<open>'a'\<close> holds 28
  content bytes before a gap of 16. \<open>_resize_if_needed(17)\<close> allocates
  \<open>10 + 17 = 27\<close> bytes, fewer than the content: the byte of the \<open>'a'\<close> is cut off
  and \<open>to_string()\<close> returns the nine U+20AC alone.
\<close>

theorem resize_if_needed_changes_to_string:
  "GapBuffer_init [0x20AC, 0x20AC, 0x20AC, 0x20AC, 0x20AC, 0x20AC, 0x20AC, 0x20AC, 0x20AC,
        0x61]
     = Inr \<lparr>buffer = 0xE2 # 0x82 # 0xAC # 0xE2 # 0x82 # 0xAC # 0xE2 # 0x82 # 0xAC #
        0xE2 # 0x82 # 0xAC # 0xE2 # 0x82 # 0xAC # 0xE2 # 0x82 # 0xAC # 0xE2 # 0x82 # 0xAC #
        0xE2 # 0x82 # 0xAC # 0xE2 # 0x82 # 0xAC # 0x61 # replicate 16 0,
      gap_start = 28, gap_end = 44\<rparr>
   \<and> to_string \<lparr>buffer = 0xE2 # 0x82 # 0xAC # 0xE2 # 0x82 # 0xAC # 0xE2 #
        0x82 # 0xAC # 0xE2 # 0x82 # 0xAC # 0xE2 # 0x82 # 0xAC # 0xE2 # 0x82 # 0xAC # 0xE2 #
        0x82 # 0xAC # 0xE2 # 0x82 # 0xAC # 0xE2 # 0x82 # 0xAC # 0x61 # replicate 16 0,
      gap_start = 28, gap_end = 44\<rparr>
       = [0x20AC, 0x20AC, 0x20AC, 0x20AC, 0x20AC, 0x20AC, 0x20AC, 0x20AC, 0x20AC, 0x61]
   \<and> to_string (resize_if_needed \<lparr>buffer = 0xE2 # 0x82 # 0xAC # 0xE2 # 0x82 #
        0xAC # 0xE2 # 0x82 # 0xAC # 0xE2 # 0x82 # 0xAC # 0xE2 # 0x82 # 0xAC # 0xE2 # 0x82 #
        0xAC # 0xE2 # 0x82 # 0xAC # 0xE2 # 0x82 # 0xAC # 0xE2 # 0x82 # 0xAC # 0x61 #
        replicate 16 0,
      gap_start = 28, gap_end = 44\<rparr> 17)
       = [0x20AC, 0x20AC, 0x20AC, 0x20AC, 0x20AC, 0x20AC, 0x20AC, 0x20AC, 0x20AC]"
  by (simp add: GapBuffer_init_euros to_string_euros resize_if_needed_euros
        to_string_euros_resized)

section \<open>The gap buffer on well-formed buffers\<close>

text \<open>
  On a buffer that holds a string, \<open>_move_gap\<close> and \<open>delete\<close> do what the reference
  model does at every position from 0 on, positions past the end being clamped;
  \<open>insert\<close> does when the text fits the gap or the content is ASCII, where the
  character count that \<open>_resize_if_needed\<close> uses is the byte count.
\<close>

lemma gap_layout_wf: "gap_layout gb A G B \<Longrightarrow> gb_wf gb"
  by (simp add: gap_layout_def gb_wf_def)

lemma gap_layout_bytes: "gap_layout gb A G B \<Longrightarrow> gb_bytes gb = A @ B"
  by (simp add: gap_layout_def gb_bytes_def)

lemma gb_wf_layout:
  assumes "gb_wf gb"
  shows "\<exists>A G B. gap_layout gb A G B"
proof -
  let ?a = "nat (gap_start gb)" and ?b = "nat (gap_end gb)"
  have ab: "?a \<le> ?b" "?b \<le> length (buffer gb)" using assms by (auto simp add: gb_wf_def)
  have "buffer gb = take ?a (buffer gb) @ take (?b - ?a) (drop ?a (buffer gb)) @ drop ?b (buffer gb)"
    using ab by (metis append_take_drop_id drop_drop le_add_diff_inverse2)
  moreover have "length (take ?a (buffer gb)) = ?a" using ab by simp
  moreover have "length (take (?b - ?a) (drop ?a (buffer gb))) = ?b - ?a" using ab by simp
  ultimately have "gap_layout gb (take ?a (buffer gb)) (take (?b - ?a) (drop ?a (buffer gb)))
                     (drop ?b (buffer gb))"
    unfolding gap_layout_def using ab assms by (simp add: gb_wf_def)
  then show ?thesis by blast
qed

lemma utf8_bytes_append [simp]: "utf8_bytes (s @ t) = utf8_bytes s @ utf8_bytes t"
  by (simp add: utf8_bytes_def)

lemma utf8_bytes_take_drop: "utf8_bytes (take n s) @ utf8_bytes (drop n s) = utf8_bytes s"
  by (simp flip: utf8_bytes_append)

lemma list_all_take: "list_all P s \<Longrightarrow> list_all P (take n s)"
  by (metis append_take_drop_id list_all_append)

lemma list_all_drop: "list_all P s \<Longrightarrow> list_all P (drop n s)"
  by (metis append_take_drop_id list_all_append)

lemma holds_to_string: "holds gb s \<Longrightarrow> to_string gb = s"
  by (simp add: holds_def to_string_def gb_bytes_def)

lemma holds_gb_len: "holds gb s \<Longrightarrow> gb_len gb = int (length s)"
  by (simp add: gb_len_def holds_to_string)

lemma holds_get_byte_pos:
  assumes "holds gb s" and "0 \<le> p"
  shows "get_byte_pos gb p = Inr (int (length (utf8_bytes (take (nat p) s))))"
proof -
  have "list_all encodable (take (nat p) s)"
    using assms(1) by (simp add: holds_def list_all_take)
  then show ?thesis
    using assms(2) by (simp add: get_byte_pos_def holds_to_string [OF assms(1)] str_encode_def)
qed

lemma holds_layout:
  assumes "holds gb s"
  shows "\<exists>A G B. gap_layout gb A G B \<and> A @ B = utf8_bytes s"
proof -
  have "gb_wf gb" using assms by (simp add: holds_def)
  then obtain A G B where l: "gap_layout gb A G B"
    using gb_wf_layout by blast
  then have "A @ B = utf8_bytes s"
    using assms gap_layout_bytes [OF l] by (simp add: holds_def)
  with l show ?thesis by blast
qed

lemma layout_holds:
  "gap_layout gb A G B \<Longrightarrow> A @ B = utf8_bytes s \<Longrightarrow> list_all encodable s \<Longrightarrow> holds gb s"
  by (simp add: holds_def gap_layout_wf gap_layout_bytes)

text \<open>Moving the gap to the left and to the right, on the layout.\<close>

lemma move_left_layout:
  assumes "gap_layout gb (A1 @ A2) G B" and "A2 \<noteq> []"
    and "get_byte_pos gb p = Inr (int (length A1))"
  shows "\<exists>gb' G'. move_gap gb p = Inr gb' \<and> gap_layout gb' A1 G' (A2 @ B)
           \<and> length G' = length G"
proof -
  let ?G' = "take (length G) (A2 @ G)"
  have lt: "int (length A1) < gap_start gb" "int (length A1) \<noteq> gap_start gb"
    using assms(1,2) by (simp_all add: gap_layout_def)
  have len: "length ?G' = length G" by simp
  have buf: "py_slice_assign (buffer gb) (Some (gap_end gb - (gap_start gb - int (length A1))))
               (Some (gap_end gb))
               (py_slice (buffer gb) (Some (int (length A1))) (Some (gap_start gb)))
             = A1 @ ?G' @ A2 @ B"
    using assms(1) by (simp add: gap_layout_def nat_add_distrib nat_diff_distrib)
  have "move_gap gb p
          = Inr (gb\<lparr>buffer := A1 @ ?G' @ A2 @ B, gap_start := int (length A1),
                    gap_end := int (length A1) + (gap_end gb - gap_start gb)\<rparr>)"
    using lt buf by (simp add: move_gap_def assms(3) Let_def)
  moreover have "gap_layout (gb\<lparr>buffer := A1 @ ?G' @ A2 @ B, gap_start := int (length A1),
                    gap_end := int (length A1) + (gap_end gb - gap_start gb)\<rparr>) A1 ?G' (A2 @ B)"
    using assms(1) by (simp add: gap_layout_def)
  ultimately show ?thesis using len by blast
qed

lemma move_right_layout:
  assumes "gap_layout gb A G (B1 @ B2)" and "B1 \<noteq> []"
    and "get_byte_pos gb p = Inr (int (length A + length B1))"
  shows "\<exists>gb' G'. move_gap gb p = Inr gb' \<and> gap_layout gb' (A @ B1) G' B2
           \<and> length G' = length G"
proof -
  let ?G' = "drop (length B1) (G @ B1)"
  have lt: "\<not> int (length A + length B1) < gap_start gb"
      "int (length A + length B1) \<noteq> gap_start gb"
    using assms(1,2) by (simp_all add: gap_layout_def)
  have len: "length ?G' = length G" by simp
  have buf: "py_slice_assign (buffer gb) (Some (gap_start gb))
               (Some (gap_start gb + (int (length A + length B1) - gap_start gb)))
               (py_slice (buffer gb) (Some (gap_end gb))
                  (Some (gap_end gb + (int (length A + length B1) - gap_start gb))))
             = A @ B1 @ ?G' @ B2"
    using assms(1) by (simp add: gap_layout_def nat_add_distrib nat_diff_distrib)
  have "move_gap gb p
          = Inr (gb\<lparr>buffer := A @ B1 @ ?G' @ B2,
                    gap_start := gap_start gb + (int (length A + length B1) - gap_start gb),
                    gap_end := gap_end gb + (int (length A + length B1) - gap_start gb)\<rparr>)"
    using lt buf by (simp add: move_gap_def assms(3) Let_def)
  moreover have "gap_layout (gb\<lparr>buffer := A @ B1 @ ?G' @ B2,
                    gap_start := gap_start gb + (int (length A + length B1) - gap_start gb),
                    gap_end := gap_end gb + (int (length A + length B1) - gap_start gb)\<rparr>)
                  (A @ B1) ?G' B2"
    using assms(1) by (simp add: gap_layout_def)
  ultimately show ?thesis using len by blast
qed

lemma move_stay_layout:
  assumes "gap_layout gb A G B" and "get_byte_pos gb p = Inr (int (length A))"
  shows "move_gap gb p = Inr gb"
  using assms by (simp add: move_gap_def gap_layout_def)

lemma holds_move_gap:
  assumes "holds gb s" and "0 \<le> p"
  shows "\<exists>gb' G'. move_gap gb p = Inr gb'
           \<and> gap_layout gb' (utf8_bytes (take (nat p) s)) G' (utf8_bytes (drop (nat p) s))
           \<and> int (length G') = gap_end gb - gap_start gb"
proof -
  let ?P = "utf8_bytes (take (nat p) s)" and ?Q = "utf8_bytes (drop (nat p) s)"
  obtain A G B where l: "gap_layout gb A G B" and ab: "A @ B = utf8_bytes s"
    using holds_layout [OF assms(1)] by blast
  have g: "int (length G) = gap_end gb - gap_start gb"
    using l by (simp add: gap_layout_def)
  have bp: "get_byte_pos gb p = Inr (int (length ?P))"
    by (rule holds_get_byte_pos [OF assms])
  have "A @ B = ?P @ ?Q" by (simp add: ab utf8_bytes_take_drop)
  then obtain us where "A = ?P @ us \<and> us @ B = ?Q \<or> A @ us = ?P \<and> B = us @ ?Q"
    by (auto simp add: append_eq_append_conv2)
  then show ?thesis
  proof
    assume a: "A = ?P @ us \<and> us @ B = ?Q"
    show ?thesis
    proof (cases "us = []")
      case True
      then have "move_gap gb p = Inr gb" using move_stay_layout [OF l] bp a by simp
      moreover have "gap_layout gb ?P G ?Q" using l a True by simp
      ultimately show ?thesis using g by blast
    next
      case False
      have "gap_layout gb (?P @ us) G B" using l a by simp
      from move_left_layout [OF this False bp] obtain gb' G'
        where m: "move_gap gb p = Inr gb'" "gap_layout gb' ?P G' (us @ B)"
          "length G' = length G"
        by blast
      have "gap_layout gb' ?P G' ?Q" using m(2) a by simp
      moreover have "int (length G') = gap_end gb - gap_start gb" using m(3) g by simp
      ultimately show ?thesis using m(1) by blast
    qed
  next
    assume a: "A @ us = ?P \<and> B = us @ ?Q"
    show ?thesis
    proof (cases "us = []")
      case True
      then have "move_gap gb p = Inr gb" using move_stay_layout [OF l] bp a by simp
      moreover have "gap_layout gb ?P G ?Q" using l a True by simp
      ultimately show ?thesis using g by blast
    next
      case False
      have l': "gap_layout gb A G (us @ ?Q)" using l a by simp
      have "length ?P = length A + length us" using a by (metis length_append)
      then have bp': "get_byte_pos gb p = Inr (int (length A + length us))" using bp by simp
      from move_right_layout [OF l' False bp'] obtain gb' G'
        where m: "move_gap gb p = Inr gb'" "gap_layout gb' (A @ us) G' ?Q"
          "length G' = length G"
        by blast
      have "gap_layout gb' ?P G' ?Q" using m(2) a by simp
      moreover have "int (length G') = gap_end gb - gap_start gb" using m(3) g by simp
      ultimately show ?thesis using m(1) by blast
    qed
  qed
qed

lemma holds_move_gap_to_string:
  assumes "holds gb s" and "0 \<le> p"
  shows "\<exists>gb'. move_gap gb p = Inr gb' \<and> holds gb' s \<and> to_string gb' = to_string gb"
proof -
  from holds_move_gap [OF assms] obtain gb' G'
    where m: "move_gap gb p = Inr gb'"
      "gap_layout gb' (utf8_bytes (take (nat p) s)) G' (utf8_bytes (drop (nat p) s))"
    by blast
  have enc: "list_all encodable s" using assms(1) by (simp add: holds_def)
  have "holds gb' s" by (rule layout_holds [OF m(2) utf8_bytes_take_drop enc])
  then show ?thesis using m(1) assms(1) by (simp add: holds_to_string)
qed

lemma take_int_add:
  "0 \<le> p \<Longrightarrow> 0 < n \<Longrightarrow> take (nat (p + n)) s = take (nat p) s @ take (nat n) (drop (nat p) s)"
  by (simp add: nat_add_distrib take_add)

lemma holds_gb_delete:
  assumes "holds gb s" and "0 \<le> p"
  shows "\<exists>gb'. gb_delete gb p n = Inr gb'
           \<and> holds gb' (if n \<le> 0 then s else take (nat p) s @ drop (nat (p + n)) s)"
proof (cases "n \<le> 0")
  case True
  then show ?thesis using assms(1) by (simp add: gb_delete_def)
next
  case False
  let ?P = "utf8_bytes (take (nat p) s)" and ?M = "utf8_bytes (take (nat n) (drop (nat p) s))"
  let ?R = "utf8_bytes (drop (nat (p + n)) s)"
  have enc: "list_all encodable s" using assms(1) by (simp add: holds_def)
  have pn: "0 \<le> p + n" using assms(2) False by simp
  have dd: "drop (nat n) (drop (nat p) s) = drop (nat (p + n)) s"
    using assms(2) False by (simp add: nat_add_distrib add.commute)
  have Q: "utf8_bytes (drop (nat p) s) = ?M @ ?R"
    using utf8_bytes_take_drop [of "nat n" "drop (nat p) s"] unfolding dd by simp
  from holds_move_gap [OF assms] obtain gb1 G'
    where m: "move_gap gb p = Inr gb1" "gap_layout gb1 ?P G' (?M @ ?R)"
    using Q by auto
  have s: "get_byte_pos gb p = Inr (int (length ?P))"
    by (rule holds_get_byte_pos [OF assms])
  have e: "get_byte_pos gb (p + n) = Inr (int (length ?P + length ?M))"
    using holds_get_byte_pos [OF assms(1) pn] assms(2) False by (simp add: take_int_add)
  have d: "gb_delete gb p n = Inr (gb1\<lparr>gap_end := gap_end gb1 + int (length ?M)\<rparr>)"
    using False by (simp add: gb_delete_def s e m(1))
  have "gap_layout (gb1\<lparr>gap_end := gap_end gb1 + int (length ?M)\<rparr>) ?P (G' @ ?M) ?R"
    using m(2) by (simp add: gap_layout_def)
  then have "holds (gb1\<lparr>gap_end := gap_end gb1 + int (length ?M)\<rparr>)
               (take (nat p) s @ drop (nat (p + n)) s)"
    by (rule layout_holds) (simp_all add: enc list_all_take list_all_drop)
  then show ?thesis using d False by simp
qed

lemma resize_keeps_layout:
  assumes "gap_layout gb A G B" and "n \<le> int (length G)"
  shows "gap_layout (resize_if_needed gb n) A G B"
  using assms by (simp add: resize_if_needed_def gap_layout_def)

lemma resize_grows_layout:
  assumes "gap_layout gb A G B" and "int (length G) < n"
    and "gb_len gb = int (length A + length B)"
  shows "\<exists>G'. gap_layout (resize_if_needed gb n) A G' B \<and> n \<le> int (length G')"
proof -
  define g where "g = max MIN_GAP_SIZE (max n (gb_len gb div 2))"
  define G' where "G' = replicate (nat g) (0::nat)"
  have g: "0 \<le> g" "n \<le> g" by (simp_all add: g_def MIN_GAP_SIZE_def)
  have N: "nat (gb_len gb + g) = length A + length B + nat g"
    using assms(3) g by (simp add: nat_add_distrib)
  have lt: "gap_end gb - gap_start gb < n" using assms(1,2) by (simp add: gap_layout_def)
  have b1: "py_slice_assign (bytearray_zeros (gb_len gb + g)) None (Some (gap_start gb))
              (py_slice (buffer gb) None (Some (gap_start gb)))
            = A @ replicate (length B + nat g) 0"
    using assms(1) by (simp add: gap_layout_def bytearray_zeros_def N)
  have b2: "py_slice_assign (A @ replicate (length B + nat g) 0)
              (Some (gb_len gb + g - (int (length (buffer gb)) - gap_end gb))) None
              (py_slice (buffer gb) (Some (gap_end gb)) None)
            = A @ G' @ B"
    using assms(1,3) g by (simp add: gap_layout_def G'_def nat_add_distrib)
  have "resize_if_needed gb n
          = gb\<lparr>buffer := A @ G' @ B,
                gap_end := gb_len gb + g - (int (length (buffer gb)) - gap_end gb)\<rparr>"
    using lt by (simp add: resize_if_needed_def Let_def b1 b2 flip: g_def)
  moreover have "gap_layout (gb\<lparr>buffer := A @ G' @ B,
                gap_end := gb_len gb + g - (int (length (buffer gb)) - gap_end gb)\<rparr>) A G' B"
    using assms(1,3) g by (simp add: gap_layout_def G'_def)
  moreover have "n \<le> int (length G')" using g by (simp add: G'_def)
  ultimately show ?thesis by auto
qed

lemma GapBuffer_init_encodable:
  assumes "list_all encodable s"
  shows "\<exists>gb. GapBuffer_init s = Inr gb \<and> holds gb s"
proof -
  let ?n = "int (length (utf8_bytes s))"
  let ?g = "max MIN_GAP_SIZE (?n div 2)"
  let ?gb = "\<lparr>buffer = utf8_bytes s @ replicate (nat ?g) 0, gap_start = ?n,
             gap_end = int (length (utf8_bytes s @ replicate (nat ?g) 0))\<rparr>"
  have g: "0 \<le> ?g" by (simp add: MIN_GAP_SIZE_def)
  have "nat (?n + ?g) = length (utf8_bytes s) + nat ?g" using g by (simp add: nat_add_distrib)
  then have "GapBuffer_init s = Inr ?gb"
    using assms by (simp add: GapBuffer_init_def str_encode_def Let_def bytearray_zeros_def)
  moreover have "gap_layout ?gb (utf8_bytes s) (replicate (nat ?g) 0) []"
    by (simp add: gap_layout_def)
  then have "holds ?gb s" by (rule layout_holds) (simp_all add: assms)
  ultimately show ?thesis by blast
qed

lemma holds_gb_insert:
  assumes "holds gb s" and "list_all encodable t" and "0 \<le> p"
    and "int (length (utf8_bytes t)) \<le> gap_end gb - gap_start gb
         \<or> length (utf8_bytes s) = length s"
  shows "\<exists>gb'. gb_insert gb t p = Inr gb'
           \<and> holds gb' (take (nat p) s @ t @ drop (nat p) s)"
proof -
  let ?P = "utf8_bytes (take (nat p) s)" and ?Q = "utf8_bytes (drop (nat p) s)"
  let ?T = "utf8_bytes t"
  have enc: "list_all encodable s" using assms(1) by (simp add: holds_def)
  from holds_move_gap [OF assms(1,3)] obtain gb1 G
    where m: "move_gap gb p = Inr gb1" "gap_layout gb1 ?P G ?Q"
      "int (length G) = gap_end gb - gap_start gb"
    by blast
  have h1: "holds gb1 s" by (rule layout_holds [OF m(2) utf8_bytes_take_drop enc])
  have "\<exists>G'. gap_layout (resize_if_needed gb1 (int (length ?T))) ?P G' ?Q
               \<and> int (length ?T) \<le> int (length G')"
  proof (cases "int (length ?T) \<le> int (length G)")
    case True
    then show ?thesis using resize_keeps_layout [OF m(2)] by blast
  next
    case False
    then have "length (utf8_bytes s) = length s" using assms(4) m(3) by simp
    then have l: "gb_len gb1 = int (length ?P + length ?Q)"
      using utf8_bytes_take_drop [of "nat p" s]
      by (simp add: holds_gb_len [OF h1] flip: length_append)
    have "int (length G) < int (length ?T)" using False by simp
    then show ?thesis using l by (rule resize_grows_layout [OF m(2)])
  qed
  then obtain G' where r: "gap_layout (resize_if_needed gb1 (int (length ?T))) ?P G' ?Q"
      and gl: "length ?T \<le> length G'"
    by auto
  let ?gb2 = "resize_if_needed gb1 (int (length ?T))"
  have buf: "py_slice_assign (buffer ?gb2) (Some (gap_start ?gb2))
               (Some (gap_start ?gb2 + int (length ?T))) ?T
             = (?P @ ?T) @ drop (length ?T) G' @ ?Q"
    using r gl by (simp add: gap_layout_def nat_add_distrib)
  have i: "gb_insert gb t p
             = Inr (?gb2\<lparr>buffer := (?P @ ?T) @ drop (length ?T) G' @ ?Q,
                         gap_start := gap_start ?gb2 + int (length ?T)\<rparr>)"
    using assms(2) by (simp add: gb_insert_def m(1) str_encode_def Let_def buf)
  have "gap_layout (?gb2\<lparr>buffer := (?P @ ?T) @ drop (length ?T) G' @ ?Q,
                         gap_start := gap_start ?gb2 + int (length ?T)\<rparr>)
          (?P @ ?T) (drop (length ?T) G') ?Q"
    using r gl by (simp add: gap_layout_def)
  then have "holds (?gb2\<lparr>buffer := (?P @ ?T) @ drop (length ?T) G' @ ?Q,
                         gap_start := gap_start ?gb2 + int (length ?T)\<rparr>)
               (take (nat p) s @ t @ drop (nat p) s)"
    by (rule layout_holds) (simp_all add: enc assms(2) list_all_take list_all_drop)
  then show ?thesis using i by simp
qed

text \<open>
  Against the reference model: on a buffer that holds a string, a deletion and an
  insertion at a position from 0 to the length give what the splice of the string gives.
\<close>

lemma get_slice_all: "get_slice gb (Some 0) (Some (gb_len gb)) = to_string gb"
  by (simp add: get_slice_def gb_len_def)

lemma gb_insert_refines_reference:
  assumes "holds gb s" and "list_all encodable t" and "0 \<le> p"
    and "int (length (utf8_bytes t)) \<le> gap_end gb - gap_start gb
         \<or> length (utf8_bytes s) = length s"
  shows "\<exists>gb'. gb_insert gb t p = Inr gb'
           \<and> get_slice gb' (Some 0) (Some (gb_len gb')) = ref_insert s t p"
proof -
  from holds_gb_insert [OF assms] obtain gb'
    where i: "gb_insert gb t p = Inr gb'"
      and h: "holds gb' (take (nat p) s @ t @ drop (nat p) s)"
    by blast
  have "get_slice gb' (Some 0) (Some (gb_len gb')) = take (nat p) s @ t @ drop (nat p) s"
    by (simp add: get_slice_all holds_to_string [OF h])
  then show ?thesis using i assms(3) by (simp add: ref_insert_def)
qed

lemma gb_delete_refines_reference:
  assumes "holds gb s" and "0 \<le> p" and "0 < n"
  shows "\<exists>gb'. gb_delete gb p n = Inr gb'
           \<and> get_slice gb' (Some 0) (Some (gb_len gb')) = ref_delete s p n"
proof -
  from holds_gb_delete [OF assms(1,2), of n] assms(3) obtain gb'
    where d: "gb_delete gb p n = Inr gb'"
      and h: "holds gb' (take (nat p) s @ drop (nat (p + n)) s)"
    by auto
  have "get_slice gb' (Some 0) (Some (gb_len gb')) = take (nat p) s @ drop (nat (p + n)) s"
    by (simp add: get_slice_all holds_to_string [OF h])
  then show ?thesis using d assms(2,3) by (simp add: ref_delete_def)
qed

section \<open>The escape sequences of the Unix decoder\<close>

lemma key_map_distinct: "distinct (map fst key_map)"
  by (simp add: key_map_def cps_def ESC_def)

lemma dict_literal_get_distinct:
  assumes "distinct (map fst d)"
  shows "dict_literal_get d k = map_of d k"
proof -
  have "distinct (map fst (rev d))" using assms by (simp add: rev_map[symmetric])
  then have "map_of (rev d) = map_of d"
    using assms by (simp add: map_of_inject_set)
  then show ?thesis by (simp add: dict_literal_get_def)
qed

text \<open>
  C6. In the Unix decoder, after the escape byte: when the look-ahead read returns
  nothing (an empty string, or \<open>BlockingIOError\<close>) the key is the bare \<open>ESCAPE\<close>; when
  it returns a non-empty sequence that, appended to the escape byte, is no key of the
  table of escape sequences, the key is \<open>UNKNOWN\<close>; when the whole sequence is a key of
  the table, the key is the one the table gives. No character payload in the three cases.
\<close>

theorem get_key_unix_escape:
  "get_key_unix pr [ESC] (Inr []) = Inr (ESCAPE, None)
   \<and> get_key_unix pr [ESC] (Inl (BlockingIOError m)) = Inr (ESCAPE, None)
   \<and> (rest \<noteq> [] \<and> ESC # rest \<notin> fst ` set key_map
        \<longrightarrow> get_key_unix pr [ESC] (Inr rest) = Inr (UNKNOWN, None))
   \<and> (rest \<noteq> [] \<and> (ESC # rest, k) \<in> set key_map
        \<longrightarrow> get_key_unix pr [ESC] (Inr rest) = Inr (k, None))"
proof (intro conjI impI)
  show "get_key_unix pr [ESC] (Inr []) = Inr (ESCAPE, None)"
    by (simp add: get_key_unix_def)
  show "get_key_unix pr [ESC] (Inl (BlockingIOError m)) = Inr (ESCAPE, None)"
    by (simp add: get_key_unix_def)
  show "get_key_unix pr [ESC] (Inr rest) = Inr (UNKNOWN, None)"
    if "rest \<noteq> [] \<and> ESC # rest \<notin> fst ` set key_map"
  proof -
    have "map_of key_map (ESC # rest) = None"
      using that by (simp add: map_of_eq_None_iff)
    then show ?thesis
      using that by (simp add: get_key_unix_def dict_literal_get_distinct[OF key_map_distinct])
  qed
  show "get_key_unix pr [ESC] (Inr rest) = Inr (k, None)"
    if "rest \<noteq> [] \<and> (ESC # rest, k) \<in> set key_map"
  proof -
    have "map_of key_map (ESC # rest) = Some k"
      using that key_map_distinct by simp
    then show ?thesis
      using that by (simp add: get_key_unix_def dict_literal_get_distinct[OF key_map_distinct])
  qed
qed

theorem get_key_unix_escape_witness:
  "(cps ''[1;5C'' \<noteq> [] \<and> (ESC # cps ''[1;5C'', CTRL_RIGHT) \<in> set key_map)
   \<and> get_key_unix (\<lambda>s. True) [ESC] (Inr (cps ''[1;5C'')) = Inr (CTRL_RIGHT, None)
   \<and> (cps ''[Z'' \<noteq> [] \<and> ESC # cps ''[Z'' \<notin> fst ` set key_map)
   \<and> get_key_unix (\<lambda>s. True) [ESC] (Inr (cps ''[Z'')) = Inr (UNKNOWN, None)"
proof -
  have a: "cps ''[1;5C'' \<noteq> [] \<and> (ESC # cps ''[1;5C'', CTRL_RIGHT) \<in> set key_map"
    by (simp add: key_map_def cps_def)
  have b: "cps ''[Z'' \<noteq> [] \<and> ESC # cps ''[Z'' \<notin> fst ` set key_map"
    by (simp add: key_map_def cps_def)
  show ?thesis
    using a b get_key_unix_escape [of "\<lambda>s. True" "[]" "cps ''[1;5C''" CTRL_RIGHT]
      get_key_unix_escape [of "\<lambda>s. True" "[]" "cps ''[Z''" UP]
    by blast
qed

section \<open>Saving when the write fails\<close>

text \<open>
  C7. \<open>save_file\<close> with a file name set, not in memory, when writing the file raises an
  \<open>OSError\<close>: whether the target is absent or the overwrite prompt was answered with a
  text starting with y, the call returns \<open>False\<close> and only the status message changes,
  to the error report; the dirty flag, the running flag and the document are as before.
\<close>

theorem save_file_write_error:
  assumes "\<not> in_memory e" and "filename e = Some fn" and "fn \<noteq> []"
    and "write_file ev fn (join_nl (map to_string (buffer_lines e))) = Some err"
    and "as_OSError err = Some msg"
  shows "(\<not> path_exists ev fn \<longrightarrow>
            save_file ev e keys
              = Some (Inr (False, e\<lparr>status_message := cps ''Error saving: '' @ msg\<rparr>, keys)))
       \<and> (path_exists ev fn \<and> prompt_loop [] keys = Some (Inr (Some answer, keys'))
            \<and> startswith (lower answer) (cps ''y'') \<longrightarrow>
            save_file ev e keys
              = Some (Inr (False, e\<lparr>status_message := cps ''Error saving: '' @ msg\<rparr>, keys')))"
proof -
  obtain c cs where fn: "fn = c # cs" using assms(3) by (cases fn) auto
  have w: "save_write ev e' fn
             = Inr (False, e'\<lparr>status_message := cps ''Error saving: '' @ msg\<rparr>)"
    if "buffer_lines e' = buffer_lines e" for e'
    using assms(4,5) that by (simp add: save_write_def)
  have sf: "save_file ev e keys = save_confirm ev e fn keys"
    using assms(1,2) fn by (simp add: save_file_def)
  show ?thesis
    unfolding sf by (auto simp add: save_confirm_def prompt_def w)
qed

theorem save_file_write_error_witness:
  "(let e = \<lparr>filename = Some (cps ''a.txt''), in_memory = False,
              buffer_lines = [\<lparr>buffer = replicate 16 0, gap_start = 0, gap_end = 16\<rparr>],
              cursor_x = 0, cursor_y = 0, running = True, is_dirty = True,
              status_message = [], help_mode = False,
              selection_start_x = - 1, selection_start_y = - 1, is_selecting = False,
              clipboard = [], action_map = (\<lambda>k. None),
              plain_movement_keys = [], shift_movement_keys = []\<rparr>;
        ev = (\<lambda>ex. \<lparr>IS_UNIX = True, get_terminal_size = (80, 24), get_clip_text_ps = Inr [],
               set_clip_text_ps = (\<lambda>t. None), path_exists = (\<lambda>p. ex),
               read_lines = (\<lambda>p. Inr []),
               write_file = (\<lambda>p t. Some (OSError (cps ''No space left on device''))),
               isspace = (\<lambda>c. c = 32)\<rparr>);
        keys = [(CHAR_KEY, Some (cps ''Y'')), (ENTER, None), (UP, None)]
    in \<not> in_memory e \<and> filename e = Some (cps ''a.txt'') \<and> cps ''a.txt'' \<noteq> []
       \<and> write_file (ev False) (cps ''a.txt'') (join_nl (map to_string (buffer_lines e)))
           = Some (OSError (cps ''No space left on device''))
       \<and> write_file (ev True) (cps ''a.txt'') (join_nl (map to_string (buffer_lines e)))
           = Some (OSError (cps ''No space left on device''))
       \<and> as_OSError (OSError (cps ''No space left on device''))
           = Some (cps ''No space left on device'')
       \<and> \<not> path_exists (ev False) (cps ''a.txt'')
       \<and> save_file (ev False) e keys
           = Some (Inr (False,
                        e\<lparr>status_message :=
                             cps ''Error saving: '' @ cps ''No space left on device''\<rparr>,
                        keys))
       \<and> path_exists (ev True) (cps ''a.txt'')
       \<and> prompt_loop [] keys = Some (Inr (Some (cps ''Y''), [(UP, None)]))
       \<and> startswith (lower (cps ''Y'')) (cps ''y'')
       \<and> save_file (ev True) e keys
           = Some (Inr (False,
                        e\<lparr>status_message :=
                             cps ''Error saving: '' @ cps ''No space left on device''\<rparr>,
                        [(UP, None)])))"
proof -
  let ?e = "\<lparr>filename = Some (cps ''a.txt''), in_memory = False,
                buffer_lines = [\<lparr>buffer = replicate 16 0, gap_start = 0, gap_end = 16\<rparr>],
                cursor_x = 0, cursor_y = 0, running = True, is_dirty = True,
                status_message = [], help_mode = False,
                selection_start_x = - 1, selection_start_y = - 1, is_selecting = False,
                clipboard = [], action_map = (\<lambda>k. None),
                plain_movement_keys = [], shift_movement_keys = []\<rparr>"
  let ?ev = "\<lambda>ex. \<lparr>IS_UNIX = True, get_terminal_size = (80, 24), get_clip_text_ps = Inr [],
                 set_clip_text_ps = (\<lambda>t. None), path_exists = (\<lambda>p. ex),
                 read_lines = (\<lambda>p. Inr []),
                 write_file = (\<lambda>p t. Some (OSError (cps ''No space left on device''))),
                 isspace = (\<lambda>c. c = 32)\<rparr>"
  let ?keys = "[(CHAR_KEY, Some (cps ''Y'')), (ENTER, None), (UP, None)]"
  have p: "prompt_loop [] ?keys = Some (Inr (Some (cps ''Y''), [(UP, None)]))"
    by (simp add: cps_def)
  have s: "startswith (lower (cps ''Y'')) (cps ''y'')"
    by (simp add: startswith_def lower_def cps_def)
  have n: "cps ''a.txt'' \<noteq> []" by (simp add: cps_def)
  show ?thesis
    using p s n
      save_file_write_error [of ?e "cps ''a.txt''" "?ev True"
        "OSError (cps ''No space left on device'')" "cps ''No space left on device''"
        ?keys "cps ''Y''" "[(UP, None)]"]
      save_file_write_error [of ?e "cps ''a.txt''" "?ev False"
        "OSError (cps ''No space left on device'')" "cps ''No space left on device''"
        ?keys "cps ''Y''" "[(UP, None)]"]
    by (simp add: Let_def)
qed

section \<open>The dispatcher, key by key\<close>

lemma handle_keypress_no_selection:
  assumes "\<not> is_selecting e" and "k \<notin> set (shift_movement_keys e)"
    and "action_map e k = Some a" and "a \<noteq> ''quit''" and "a \<noteq> ''save''"
  shows "handle_keypress ev e k char keys =
           (case do_action ev (Some a) char (e\<lparr>status_message := HELP_STATUS\<rparr>) of
              Inl err \<Rightarrow> Some (Inl err)
            | Inr e5 \<Rightarrow>
                (case clamp_cursor e5 of
                   Inl err \<Rightarrow> Some (Inl err)
                 | Inr e6 \<Rightarrow> Some (Inr (e6, keys))))"
  using assms by (simp add: handle_keypress_def Let_def)

lemma do_action_paste: "do_action ev (Some ''paste'') char e = paste ev e"
  by (simp add: do_action_def)

lemma do_action_insert_newline: "do_action ev (Some ''insert_newline'') char e = insert_newline e"
  by (simp add: do_action_def)

lemma do_action_delete_back: "do_action ev (Some ''delete_back'') char e = delete_back e"
  by (simp add: do_action_def)

lemma default_action_ENTER: "invert_bindings DEFAULT_KEY_BINDINGS ENTER = Some ''insert_newline''"
  by (simp add: invert_bindings_def DEFAULT_KEY_BINDINGS_def)

lemma default_action_BACKSPACE: "invert_bindings DEFAULT_KEY_BINDINGS BACKSPACE = Some ''delete_back''"
  by (simp add: invert_bindings_def DEFAULT_KEY_BINDINGS_def)

lemma default_action_CTRL_V: "invert_bindings DEFAULT_KEY_BINDINGS CTRL_V = Some ''paste''"
  by (simp add: invert_bindings_def DEFAULT_KEY_BINDINGS_def)

lemma not_shift_in_name [simp]:
  "\<not> shift_in_name CTRL_V" "\<not> shift_in_name ENTER" "\<not> shift_in_name BACKSPACE"
  by (simp_all add: shift_in_name_def)

lemma default_shift_movement_keys:
  "filter shift_in_name (movement_keys DEFAULT_KEY_BINDINGS)
     = [SHIFT_UP, CTRL_SHIFT_UP, SHIFT_DOWN, CTRL_SHIFT_DOWN, SHIFT_LEFT, SHIFT_RIGHT, SHIFT_HOME,
        SHIFT_END, SHIFT_PAGE_UP, SHIFT_PAGE_DOWN, CTRL_SHIFT_LEFT, CTRL_SHIFT_RIGHT,
        CTRL_SHIFT_HOME, CTRL_SHIFT_END]"
  by (simp add: movement_keys_def movement_actions_def DEFAULT_KEY_BINDINGS_def shift_in_name_def)

lemma cps_simps: "cps [] = []" "cps (c # s) = of_char c # cps s"
  by (simp_all add: cps_def)

lemma norm_index_in_range: "0 \<le> i \<Longrightarrow> i < int n \<Longrightarrow> norm_index n i = Inr (nat i)"
  by (simp add: norm_index_def)

lemma py_index_in_range: "0 \<le> i \<Longrightarrow> i < int (length xs) \<Longrightarrow> py_index xs i = Inr (xs ! nat i)"
  by (simp add: py_index_def norm_index_in_range)

lemma py_setitem_in_range:
  "0 \<le> i \<Longrightarrow> i < int (length xs) \<Longrightarrow> py_setitem xs i v = Inr (xs[nat i := v])"
  by (simp add: py_setitem_def norm_index_in_range)

lemma paste_hello_world:
  assumes "buffer_lines e = [g0, g1]" and "holds g0 (cps ''hello'')"
    and "cursor_y e = 0" and "cursor_x e = 5" and "\<not> is_selecting e"
    and "if IS_UNIX ev then clipboard e = cps ''X'' @ NL # cps ''Y''
         else get_clip_text_ps ev = Inr (cps ''X'' @ NL # cps ''Y'')"
  shows "\<exists>c0 c1. paste ev e
             = Inr (e\<lparr>clipboard := cps ''X'' @ NL # cps ''Y'', buffer_lines := [c0, c1, g1],
                      cursor_y := 1, cursor_x := 1, is_dirty := True\<rparr>)
           \<and> holds c0 (cps ''helloX'') \<and> holds c1 (cps ''Y'')"
proof -
  define clip where "clip = cps ''X'' @ NL # cps ''Y''"
  define X where "X = cps ''X''"
  define Y where "Y = cps ''Y''"
  define e1 where "e1 = e\<lparr>clipboard := clip\<rparr>"
  have first: "(if \<not> IS_UNIX ev
                then (case get_clip_text_ps ev of
                        Inl err \<Rightarrow> Inl err
                      | Inr t \<Rightarrow> Inr (e\<lparr>clipboard := t\<rparr>))
                else Inr e) = Inr e1"
    using assms(6) by (cases "IS_UNIX ev") (simp_all add: e1_def clip_def)
  have e1: "buffer_lines e1 = [g0, g1]" "cursor_y e1 = 0" "cursor_x e1 = 5"
      "\<not> is_selecting e1" "clipboard e1 = clip"
    using assms(1,3,4,5) by (simp_all add: e1_def)
  have lines: "split_nl clip = [X, Y]" by (simp add: clip_def X_def Y_def NL_def cps_simps)
  have lY: "length Y = 1" by (simp add: Y_def cps_simps)
  have ts: "to_string g0 = cps ''hello''" by (rule holds_to_string [OF assms(2)])
  have rem: "get_slice g0 (Some 5) None = []" by (simp add: get_slice_def ts cps_simps)
  have del: "gb_delete g0 5 (gb_len g0 - 5) = Inr g0"
    by (simp add: gb_delete_def gb_len_def ts cps_simps)
  have "\<exists>gb'. gb_insert g0 (cps ''X'') 5 = Inr gb'
           \<and> holds gb' (take (nat 5) (cps ''hello'') @ cps ''X'' @ drop (nat 5) (cps ''hello''))"
    by (rule holds_gb_insert [OF assms(2)])
       (simp_all add: encodable_def utf8_bytes_def encode_char_def cps_simps)
  then obtain c0 where c0: "gb_insert g0 X 5 = Inr c0" "holds c0 (cps ''helloX'')"
    by (auto simp add: X_def cps_simps)
  have "\<exists>gb. GapBuffer_init (cps ''Y'') = Inr gb \<and> holds gb (cps ''Y'')"
    by (rule GapBuffer_init_encodable) (simp add: encodable_def cps_simps)
  then obtain c1 where c1: "GapBuffer_init Y = Inr c1" "holds c1 (cps ''Y'')"
    by (auto simp add: Y_def)
  have mid: "py_slice [X, Y] (Some 1) (Some (- 1)) = []"
    by (simp add: py_slice_def slice_bound_def slice_index_def Let_def)
  have ins: "py_list_insert [c0, g1] 1 c1 = [c0, c1, g1]"
    by (simp add: py_list_insert_def)
  have "paste ev e
          = Inr (e1\<lparr>buffer_lines := [c0, c1, g1], cursor_y := 1, cursor_x := 1,
                    is_dirty := True\<rparr>)"
    unfolding paste_def first
    by (simp add: e1 lines Let_def py_index_in_range py_setitem_in_range rem del c0 c1 mid ins lY)
  then show ?thesis using c0(2) c1(2) by (auto simp add: e1_def clip_def)
qed

lemma clamp_cursor_in_document: "cursor_in_document e \<Longrightarrow> clamp_cursor e = Inr e"
  by (simp add: clamp_cursor_def cursor_in_document_def Let_def line_len_def py_index_in_range
        min_def max_def)

lemma clamp_cursor_establishes:
  assumes "clamp_cursor e = Inr e'"
  shows "cursor_in_document e' \<and> buffer_lines e' = buffer_lines e"
proof -
  let ?cy = "max 0 (min (cursor_y e) (int (length (buffer_lines e)) - 1))"
  from assms obtain n where n: "line_len e ?cy = Inr n"
      and e': "e' = e\<lparr>cursor_y := ?cy, cursor_x := max 0 (min (cursor_x e) n)\<rparr>"
    by (auto simp add: clamp_cursor_def Let_def split: sum.splits)
  from n obtain j where j: "norm_index (length (buffer_lines e)) ?cy = Inr j"
      and nn: "n = gb_len (buffer_lines e ! j)"
    by (auto simp add: line_len_def py_index_def split: sum.splits)
  have rng: "?cy < int (length (buffer_lines e))" and jj: "j = nat ?cy"
    using j by (auto simp add: norm_index_def Let_def split: if_splits)
  have "0 \<le> n" by (simp add: nn)
  then show ?thesis using rng jj nn by (auto simp add: e' cursor_in_document_def)
qed

lemma holds_fresh_ascii:
  assumes "\<forall>c \<in> set s. c < 0x80"
  shows "holds \<lparr>buffer = s @ replicate n 0, gap_start = int (length s),
                gap_end = int (length s) + int n\<rparr> s"
proof -
  have "gap_layout \<lparr>buffer = s @ replicate n 0, gap_start = int (length s),
                gap_end = int (length s) + int n\<rparr> s (replicate n 0) []"
    by (simp add: gap_layout_def)
  then show ?thesis
    by (rule layout_holds) (simp_all add: utf8_bytes_ascii encodable_ascii_all assms)
qed

section \<open>Pasting two segments at the end of a line\<close>

lemma handle_keypress_paste_hello:
  assumes "buffer_lines e = [g0, g1]" and "holds g0 (cps ''hello'')"
    and "cursor_y e = 0" and "cursor_x e = 5" and "\<not> is_selecting e"
    and "if IS_UNIX ev then clipboard e = cps ''X'' @ NL # cps ''Y''
         else get_clip_text_ps ev = Inr (cps ''X'' @ NL # cps ''Y'')"
    and "action_map e k = Some ''paste''" and "k \<notin> set (shift_movement_keys e)"
  shows "\<exists>c0 c1. handle_keypress ev e k char keys
             = Some (Inr (e\<lparr>status_message := HELP_STATUS,
                             clipboard := cps ''X'' @ NL # cps ''Y'',
                             buffer_lines := [c0, c1, g1],
                             cursor_y := 1, cursor_x := 1, is_dirty := True\<rparr>, keys))
           \<and> holds c0 (cps ''helloX'') \<and> holds c1 (cps ''Y'')"
proof -
  let ?e = "e\<lparr>status_message := HELP_STATUS\<rparr>"
  have "\<exists>c0 c1. paste ev ?e
             = Inr (?e\<lparr>clipboard := cps ''X'' @ NL # cps ''Y'', buffer_lines := [c0, c1, g1],
                       cursor_y := 1, cursor_x := 1, is_dirty := True\<rparr>)
           \<and> holds c0 (cps ''helloX'') \<and> holds c1 (cps ''Y'')"
    by (rule paste_hello_world [where ?g0.0 = g0]) (simp_all add: assms)
  then obtain c0 c1 where p: "paste ev ?e
             = Inr (?e\<lparr>clipboard := cps ''X'' @ NL # cps ''Y'', buffer_lines := [c0, c1, g1],
                       cursor_y := 1, cursor_x := 1, is_dirty := True\<rparr>)"
      and c: "holds c0 (cps ''helloX'')" "holds c1 (cps ''Y'')"
    by blast
  let ?e' = "?e\<lparr>clipboard := cps ''X'' @ NL # cps ''Y'', buffer_lines := [c0, c1, g1],
                cursor_y := 1, cursor_x := 1, is_dirty := True\<rparr>"
  have "cursor_in_document ?e'"
    by (simp add: cursor_in_document_def holds_gb_len [OF c(2)] cps_simps)
  then have cl: "clamp_cursor ?e' = Inr ?e'" by (rule clamp_cursor_in_document)
  have "handle_keypress ev e k char keys = Some (Inr (?e', keys))"
    using assms(5,7,8)
    by (simp add: handle_keypress_no_selection [where a = "''paste''"] do_action_paste p cl)
  then show ?thesis using c by auto
qed

lemma holds_hello:
  "holds \<lparr>buffer = cps ''hello'' @ replicate 16 0, gap_start = 5, gap_end = 21\<rparr> (cps ''hello'')"
  using holds_fresh_ascii [of "cps ''hello''" 16] by (simp add: cps_simps)

lemma holds_world:
  "holds \<lparr>buffer = cps ''world'' @ replicate 16 0, gap_start = 5, gap_end = 21\<rparr> (cps ''world'')"
  using holds_fresh_ascii [of "cps ''world''" 16] by (simp add: cps_simps)

text \<open>
  C2. The scenario on the editor whose two lines are \<open>hello\<close> and \<open>world\<close> as
  \<open>GapBuffer\<close> builds them, with the default key bindings, the cursor at (0, 5) and
  the clipboard text \<open>X\<close>, newline, \<open>Y\<close>: after Ctrl-V the document has the three
  lines \<open>helloX\<close>, \<open>Y\<close> and \<open>world\<close>; it is not the two-line document \<open>helloX\<close>,
  \<open>Yworld\<close>.
\<close>

theorem paste_scenario_three_lines:
  "(let e = \<lparr>filename = None, in_memory = True,
             buffer_lines =
               [\<lparr>buffer = cps ''hello'' @ replicate 16 0, gap_start = 5, gap_end = 21\<rparr>,
                \<lparr>buffer = cps ''world'' @ replicate 16 0, gap_start = 5, gap_end = 21\<rparr>],
             cursor_x = 5, cursor_y = 0, running = True, is_dirty = False,
             status_message = HELP_STATUS, help_mode = False,
             selection_start_x = - 1, selection_start_y = - 1, is_selecting = False,
             clipboard = cps ''X'' @ NL # cps ''Y'',
             action_map = invert_bindings DEFAULT_KEY_BINDINGS,
             plain_movement_keys =
               filter (\<lambda>k. \<not> shift_in_name k) (movement_keys DEFAULT_KEY_BINDINGS),
             shift_movement_keys =
               filter shift_in_name (movement_keys DEFAULT_KEY_BINDINGS)\<rparr>;
        ev = \<lparr>IS_UNIX = True, get_terminal_size = (80, 24), get_clip_text_ps = Inr [],
              set_clip_text_ps = (\<lambda>t. None), path_exists = (\<lambda>p. False),
              read_lines = (\<lambda>p. Inr []), write_file = (\<lambda>p t. None),
              isspace = (\<lambda>c. c = 32)\<rparr>
    in map_option document (completed (handle_keypress ev e CTRL_V None []))
         = Some [cps ''helloX'', cps ''Y'', cps ''world'']
       \<and> map_option document (completed (handle_keypress ev e CTRL_V None []))
         \<noteq> Some [cps ''helloX'', cps ''Yworld''])"
proof -
  let ?e = "\<lparr>filename = None, in_memory = True,
             buffer_lines =
               [\<lparr>buffer = cps ''hello'' @ replicate 16 0, gap_start = 5, gap_end = 21\<rparr>,
                \<lparr>buffer = cps ''world'' @ replicate 16 0, gap_start = 5, gap_end = 21\<rparr>],
             cursor_x = 5, cursor_y = 0, running = True, is_dirty = False,
             status_message = HELP_STATUS, help_mode = False,
             selection_start_x = - 1, selection_start_y = - 1, is_selecting = False,
             clipboard = cps ''X'' @ NL # cps ''Y'',
             action_map = invert_bindings DEFAULT_KEY_BINDINGS,
             plain_movement_keys =
               filter (\<lambda>k. \<not> shift_in_name k) (movement_keys DEFAULT_KEY_BINDINGS),
             shift_movement_keys =
               filter shift_in_name (movement_keys DEFAULT_KEY_BINDINGS)\<rparr>"
  let ?ev = "\<lparr>IS_UNIX = True, get_terminal_size = (80, 24), get_clip_text_ps = Inr [],
              set_clip_text_ps = (\<lambda>t. None), path_exists = (\<lambda>p. False),
              read_lines = (\<lambda>p. Inr []), write_file = (\<lambda>p t. None),
              isspace = (\<lambda>c. c = 32)\<rparr>"
  have "\<exists>c0 c1. handle_keypress ?ev ?e CTRL_V None []
             = Some (Inr (?e\<lparr>status_message := HELP_STATUS,
                             clipboard := cps ''X'' @ NL # cps ''Y'',
                             buffer_lines :=
                               [c0, c1, \<lparr>buffer = cps ''world'' @ replicate 16 0,
                                         gap_start = 5, gap_end = 21\<rparr>],
                             cursor_y := 1, cursor_x := 1, is_dirty := True\<rparr>, []))
           \<and> holds c0 (cps ''helloX'') \<and> holds c1 (cps ''Y'')"
    by (rule handle_keypress_paste_hello
          [where ?g0.0 = "\<lparr>buffer = cps ''hello'' @ replicate 16 0, gap_start = 5,
                           gap_end = 21\<rparr>"])
       (simp_all add: holds_hello default_action_CTRL_V)
  then obtain c0 c1 where h: "handle_keypress ?ev ?e CTRL_V None []
             = Some (Inr (?e\<lparr>status_message := HELP_STATUS,
                             clipboard := cps ''X'' @ NL # cps ''Y'',
                             buffer_lines :=
                               [c0, c1, \<lparr>buffer = cps ''world'' @ replicate 16 0,
                                         gap_start = 5, gap_end = 21\<rparr>],
                             cursor_y := 1, cursor_x := 1, is_dirty := True\<rparr>, []))"
      and c: "holds c0 (cps ''helloX'')" "holds c1 (cps ''Y'')"
    by blast
  show ?thesis
    unfolding Let_def h
    by (simp add: completed_def document_def holds_to_string [OF c(1)]
          holds_to_string [OF c(2)] holds_to_string [OF holds_world])
qed

text \<open>
  C2, with the document that the code leaves. For an editor whose document is the two
  lines \<open>hello\<close> and \<open>world\<close>, with the cursor on line 0 at character offset 5,
  nothing selected and the clipboard text \<open>X\<close>, newline, \<open>Y\<close> (the editor's own
  clipboard on Unix, the host's otherwise), a key bound to the paste action yields the
  three-line document \<open>helloX\<close>, \<open>Y\<close>, \<open>world\<close> with the cursor on line 1 at
  character offset 1: the remainder of line 0 behind the cursor is empty, so the last
  pasted segment makes a line of its own and the line \<open>world\<close> is not touched. The two
  lines are any buffers that hold their strings, whatever the position and size of the
  gap: \<open>GapBuffer\<close> builds such a buffer (\<open>GapBuffer_init_encodable\<close>), and
  \<open>insert\<close> and \<open>delete\<close> keep it one on ASCII content (\<open>holds_gb_insert\<close>,
  \<open>holds_gb_delete\<close>).
\<close>

theorem paste_scenario:
  assumes "buffer_lines e = [g0, g1]" and "holds g0 (cps ''hello'')"
    and "holds g1 (cps ''world'')"
    and "cursor_y e = 0" and "cursor_x e = 5" and "\<not> is_selecting e"
    and "if IS_UNIX ev then clipboard e = cps ''X'' @ NL # cps ''Y''
         else get_clip_text_ps ev = Inr (cps ''X'' @ NL # cps ''Y'')"
    and "action_map e k = Some ''paste''" and "k \<notin> set (shift_movement_keys e)"
  shows "\<exists>e'. handle_keypress ev e k char keys = Some (Inr (e', keys))
           \<and> document e' = [cps ''helloX'', cps ''Y'', cps ''world'']
           \<and> cursor_y e' = 1 \<and> cursor_x e' = 1"
proof -
  from handle_keypress_paste_hello [OF assms(1,2,4,5,6,7,8,9), of char keys]
  obtain c0 c1 where h: "handle_keypress ev e k char keys
             = Some (Inr (e\<lparr>status_message := HELP_STATUS,
                             clipboard := cps ''X'' @ NL # cps ''Y'',
                             buffer_lines := [c0, c1, g1],
                             cursor_y := 1, cursor_x := 1, is_dirty := True\<rparr>, keys))"
      and c: "holds c0 (cps ''helloX'')" "holds c1 (cps ''Y'')"
    by blast
  show ?thesis
    unfolding h
    by (simp add: document_def holds_to_string [OF c(1)] holds_to_string [OF c(2)]
          holds_to_string [OF assms(3)])
qed

theorem paste_scenario_witness:
  "(let g0 = \<lparr>buffer = cps ''hello'' @ replicate 16 0, gap_start = 5, gap_end = 21\<rparr>;
        g1 = \<lparr>buffer = cps ''world'' @ replicate 16 0, gap_start = 5, gap_end = 21\<rparr>;
        e = \<lparr>filename = None, in_memory = True,
             buffer_lines =
               [\<lparr>buffer = cps ''hello'' @ replicate 16 0, gap_start = 5, gap_end = 21\<rparr>,
                \<lparr>buffer = cps ''world'' @ replicate 16 0, gap_start = 5, gap_end = 21\<rparr>],
             cursor_x = 5, cursor_y = 0, running = True, is_dirty = False,
             status_message = HELP_STATUS, help_mode = False,
             selection_start_x = - 1, selection_start_y = - 1, is_selecting = False,
             clipboard = cps ''X'' @ NL # cps ''Y'',
             action_map = invert_bindings DEFAULT_KEY_BINDINGS,
             plain_movement_keys =
               filter (\<lambda>k. \<not> shift_in_name k) (movement_keys DEFAULT_KEY_BINDINGS),
             shift_movement_keys =
               filter shift_in_name (movement_keys DEFAULT_KEY_BINDINGS)\<rparr>;
        ev = \<lparr>IS_UNIX = True, get_terminal_size = (80, 24), get_clip_text_ps = Inr [],
              set_clip_text_ps = (\<lambda>t. None), path_exists = (\<lambda>p. False),
              read_lines = (\<lambda>p. Inr []), write_file = (\<lambda>p t. None),
              isspace = (\<lambda>c. c = 32)\<rparr>
    in buffer_lines e = [g0, g1] \<and> holds g0 (cps ''hello'') \<and> holds g1 (cps ''world'')
       \<and> cursor_y e = 0 \<and> cursor_x e = 5 \<and> \<not> is_selecting e
       \<and> (if IS_UNIX ev then clipboard e = cps ''X'' @ NL # cps ''Y''
            else get_clip_text_ps ev = Inr (cps ''X'' @ NL # cps ''Y''))
       \<and> action_map e CTRL_V = Some ''paste'' \<and> CTRL_V \<notin> set (shift_movement_keys e)
       \<and> (\<exists>e'. handle_keypress ev e CTRL_V None [] = Some (Inr (e', []))
              \<and> document e' = [cps ''helloX'', cps ''Y'', cps ''world'']
              \<and> cursor_y e' = 1 \<and> cursor_x e' = 1))"
  using paste_scenario
          [of "\<lparr>filename = None, in_memory = True,
             buffer_lines =
               [\<lparr>buffer = cps ''hello'' @ replicate 16 0, gap_start = 5, gap_end = 21\<rparr>,
                \<lparr>buffer = cps ''world'' @ replicate 16 0, gap_start = 5, gap_end = 21\<rparr>],
             cursor_x = 5, cursor_y = 0, running = True, is_dirty = False,
             status_message = HELP_STATUS, help_mode = False,
             selection_start_x = - 1, selection_start_y = - 1, is_selecting = False,
             clipboard = cps ''X'' @ NL # cps ''Y'',
             action_map = invert_bindings DEFAULT_KEY_BINDINGS,
             plain_movement_keys =
               filter (\<lambda>k. \<not> shift_in_name k) (movement_keys DEFAULT_KEY_BINDINGS),
             shift_movement_keys =
               filter shift_in_name (movement_keys DEFAULT_KEY_BINDINGS)\<rparr>"
              "\<lparr>buffer = cps ''hello'' @ replicate 16 0, gap_start = 5, gap_end = 21\<rparr>"
              "\<lparr>buffer = cps ''world'' @ replicate 16 0, gap_start = 5, gap_end = 21\<rparr>"
              "\<lparr>IS_UNIX = True, get_terminal_size = (80, 24), get_clip_text_ps = Inr [],
              set_clip_text_ps = (\<lambda>t. None), path_exists = (\<lambda>p. False),
              read_lines = (\<lambda>p. Inr []), write_file = (\<lambda>p t. None),
              isspace = (\<lambda>c. c = 32)\<rparr>"
              CTRL_V None "[]"]
  by (simp add: Let_def holds_hello holds_world default_action_CTRL_V)

section \<open>Enter and Backspace on the empty document\<close>

lemma GapBuffer_init_empty:
  "GapBuffer_init [] = Inr \<lparr>buffer = replicate 16 0, gap_start = 0, gap_end = 16\<rparr>"
  by (simp add: GapBuffer_init_def str_encode_def utf8_bytes_def MIN_GAP_SIZE_def
        bytearray_zeros_def Let_def)

lemma holds_empty: "holds \<lparr>buffer = replicate 16 0, gap_start = 0, gap_end = 16\<rparr> []"
  using holds_fresh_ascii [of "[]" 16] by simp

lemma to_string_empty [simp]:
  "to_string \<lparr>buffer = replicate 16 0, gap_start = 0, gap_end = 16\<rparr> = []"
  by (rule holds_to_string [OF holds_empty])

lemma gb_insert_empty:
  "gb_insert \<lparr>buffer = replicate 16 0, gap_start = 0, gap_end = 16\<rparr> [] 0
     = Inr \<lparr>buffer = replicate 16 0, gap_start = 0, gap_end = 16\<rparr>"
  by (simp add: gb_insert_def move_gap_def get_byte_pos_def str_encode_def utf8_bytes_def
        resize_if_needed_def Let_def)

lemma Editor_init_empty_file:
  assumes "\<not> path_exists ev fn \<or> read_lines ev fn = Inr []"
  shows "Editor_init ev (Some fn) None False
           = Inr \<lparr>filename = Some fn, in_memory = False,
                  buffer_lines = [\<lparr>buffer = replicate 16 0, gap_start = 0, gap_end = 16\<rparr>],
                  cursor_x = 0, cursor_y = 0, running = True, is_dirty = False,
                  status_message = HELP_STATUS, help_mode = False,
                  selection_start_x = - 1, selection_start_y = - 1,
                  is_selecting = False, clipboard = [],
                  action_map = invert_bindings DEFAULT_KEY_BINDINGS,
                  plain_movement_keys =
                    filter (\<lambda>k. \<not> shift_in_name k) (movement_keys DEFAULT_KEY_BINDINGS),
                  shift_movement_keys =
                    filter shift_in_name (movement_keys DEFAULT_KEY_BINDINGS)\<rparr>"
  using assms by (auto simp add: Editor_init_def GapBuffer_init_empty)

lemma handle_keypress_newline_empty:
  assumes "buffer_lines e = [\<lparr>buffer = replicate 16 0, gap_start = 0, gap_end = 16\<rparr>]"
    and "cursor_y e = 0" and "cursor_x e = 0" and "\<not> is_selecting e"
    and "action_map e k = Some ''insert_newline''" and "k \<notin> set (shift_movement_keys e)"
  shows "handle_keypress ev e k char keys
           = Some (Inr (e\<lparr>status_message := HELP_STATUS, is_dirty := True,
                           buffer_lines :=
                             [\<lparr>buffer = replicate 16 0, gap_start = 0, gap_end = 16\<rparr>,
                              \<lparr>buffer = replicate 16 0, gap_start = 0, gap_end = 16\<rparr>],
                           cursor_y := 1, cursor_x := 0\<rparr>, keys))"
proof -
  let ?E = "\<lparr>buffer = replicate 16 0, gap_start = 0, gap_end = 16\<rparr>"
  let ?e = "e\<lparr>status_message := HELP_STATUS\<rparr>"
  let ?e' = "e\<lparr>status_message := HELP_STATUS, is_dirty := True, buffer_lines := [?E, ?E],
               cursor_y := 1, cursor_x := 0\<rparr>"
  have "insert_newline ?e = Inr ?e'"
    using assms(1,2,3)
    by (simp add: insert_newline_def Let_def py_index_in_range py_setitem_in_range get_slice_def
          gb_delete_def gb_len_def GapBuffer_init_empty py_list_insert_def)
  moreover have "cursor_in_document ?e'" by (simp add: cursor_in_document_def gb_len_def)
  then have "clamp_cursor ?e' = Inr ?e'" by (rule clamp_cursor_in_document)
  ultimately show ?thesis
    using assms(4,5,6)
    by (simp add: handle_keypress_no_selection [where a = "''insert_newline''"]
          do_action_insert_newline)
qed

lemma handle_keypress_delete_back_empty:
  assumes "buffer_lines e = [\<lparr>buffer = replicate 16 0, gap_start = 0, gap_end = 16\<rparr>,
                             \<lparr>buffer = replicate 16 0, gap_start = 0, gap_end = 16\<rparr>]"
    and "cursor_y e = 1" and "cursor_x e = 0" and "\<not> is_selecting e"
    and "action_map e k = Some ''delete_back''" and "k \<notin> set (shift_movement_keys e)"
  shows "handle_keypress ev e k char keys
           = Some (Inr (e\<lparr>status_message := HELP_STATUS, is_dirty := True,
                           buffer_lines :=
                             [\<lparr>buffer = replicate 16 0, gap_start = 0, gap_end = 16\<rparr>],
                           cursor_y := 0, cursor_x := 0\<rparr>, keys))"
proof -
  let ?E = "\<lparr>buffer = replicate 16 0, gap_start = 0, gap_end = 16\<rparr>"
  let ?e = "e\<lparr>status_message := HELP_STATUS\<rparr>"
  let ?e' = "e\<lparr>status_message := HELP_STATUS, is_dirty := True, buffer_lines := [?E],
               cursor_y := 0, cursor_x := 0\<rparr>"
  have pop: "py_pop [?E, ?E] 1 = Inr (?E, [?E])"
    by (simp add: py_pop_def norm_index_in_range)
  have "delete_back ?e = Inr ?e'"
    using assms(1,2,3)
    by (simp add: delete_back_def Let_def pop line_len_def with_line_def py_index_in_range
          py_setitem_in_range gb_len_def gb_insert_empty)
  moreover have "cursor_in_document ?e'" by (simp add: cursor_in_document_def gb_len_def)
  then have "clamp_cursor ?e' = Inr ?e'" by (rule clamp_cursor_in_document)
  ultimately show ?thesis
    using assms(4,5,6)
    by (simp add: handle_keypress_no_selection [where a = "''delete_back''"]
          do_action_delete_back)
qed

text \<open>
  C8. Opening a file that is missing or has no line gives an editor whose document is
  one empty line, with the cursor at (0, 0) and the dirty flag false. Enter then makes
  the document two empty lines with the dirty flag true; Backspace after it returns the
  document to one empty line and the cursor to (0, 0), and the dirty flag stays true.
  The key bindings are the default ones, under which Enter is \<open>insert_newline\<close> and
  Backspace is \<open>delete_back\<close>.
\<close>

theorem enter_backspace_empty_document:
  assumes "\<not> path_exists ev fn \<or> read_lines ev fn = Inr []"
  shows "\<exists>e0 e1 e2.
           Editor_init ev (Some fn) None False = Inr e0
           \<and> document e0 = [[]] \<and> cursor_y e0 = 0 \<and> cursor_x e0 = 0 \<and> \<not> is_dirty e0
           \<and> handle_keypress ev e0 ENTER None keys = Some (Inr (e1, keys))
           \<and> document e1 = [[], []] \<and> is_dirty e1
           \<and> handle_keypress ev e1 BACKSPACE None keys = Some (Inr (e2, keys))
           \<and> document e2 = [[]] \<and> cursor_y e2 = 0 \<and> cursor_x e2 = 0 \<and> is_dirty e2"
proof -
  let ?E = "\<lparr>buffer = replicate 16 0, gap_start = 0, gap_end = 16\<rparr>"
  let ?e0 = "\<lparr>filename = Some fn, in_memory = False, buffer_lines = [?E],
               cursor_x = 0, cursor_y = 0, running = True, is_dirty = False,
               status_message = HELP_STATUS, help_mode = False,
               selection_start_x = - 1, selection_start_y = - 1,
               is_selecting = False, clipboard = [],
               action_map = invert_bindings DEFAULT_KEY_BINDINGS,
               plain_movement_keys =
                 filter (\<lambda>k. \<not> shift_in_name k) (movement_keys DEFAULT_KEY_BINDINGS),
               shift_movement_keys =
                 filter shift_in_name (movement_keys DEFAULT_KEY_BINDINGS)\<rparr>"
  let ?e1 = "?e0\<lparr>status_message := HELP_STATUS, is_dirty := True, buffer_lines := [?E, ?E],
                cursor_y := 1, cursor_x := 0\<rparr>"
  let ?e2 = "?e1\<lparr>status_message := HELP_STATUS, is_dirty := True, buffer_lines := [?E],
                cursor_y := 0, cursor_x := 0\<rparr>"
  have i: "Editor_init ev (Some fn) None False = Inr ?e0"
    by (rule Editor_init_empty_file [OF assms])
  have a: "handle_keypress ev ?e0 ENTER None keys = Some (Inr (?e1, keys))"
    by (rule handle_keypress_newline_empty) (simp_all add: default_action_ENTER)
  have b: "handle_keypress ev ?e1 BACKSPACE None keys = Some (Inr (?e2, keys))"
    by (rule handle_keypress_delete_back_empty) (simp_all add: default_action_BACKSPACE)
  have "document ?e0 = [[]] \<and> cursor_y ?e0 = 0 \<and> cursor_x ?e0 = 0 \<and> \<not> is_dirty ?e0
        \<and> document ?e1 = [[], []] \<and> is_dirty ?e1
        \<and> document ?e2 = [[]] \<and> cursor_y ?e2 = 0 \<and> cursor_x ?e2 = 0 \<and> is_dirty ?e2"
    by (simp add: document_def)
  with i a b show ?thesis by blast
qed

theorem enter_backspace_empty_document_witness:
  "(let missing = \<lparr>IS_UNIX = True, get_terminal_size = (80, 24), get_clip_text_ps = Inr [],
                set_clip_text_ps = (\<lambda>t. None), path_exists = (\<lambda>p. False),
                read_lines = (\<lambda>p. Inl (OSError (cps ''No such file or directory''))),
                write_file = (\<lambda>p t. None), isspace = (\<lambda>c. c = 32)\<rparr>;
        empty = \<lparr>IS_UNIX = True, get_terminal_size = (80, 24), get_clip_text_ps = Inr [],
                set_clip_text_ps = (\<lambda>t. None), path_exists = (\<lambda>p. True),
                read_lines = (\<lambda>p. Inr []),
                write_file = (\<lambda>p t. None), isspace = (\<lambda>c. c = 32)\<rparr>;
        fn = cps ''notes.txt'';
        keys = [(CTRL_Q, None)]
    in \<not> path_exists missing fn
       \<and> (\<exists>e0 e1 e2.
              Editor_init missing (Some fn) None False = Inr e0
              \<and> document e0 = [[]] \<and> cursor_y e0 = 0 \<and> cursor_x e0 = 0 \<and> \<not> is_dirty e0
              \<and> handle_keypress missing e0 ENTER None keys = Some (Inr (e1, keys))
              \<and> document e1 = [[], []] \<and> is_dirty e1
              \<and> handle_keypress missing e1 BACKSPACE None keys = Some (Inr (e2, keys))
              \<and> document e2 = [[]] \<and> cursor_y e2 = 0 \<and> cursor_x e2 = 0 \<and> is_dirty e2)
       \<and> path_exists empty fn \<and> read_lines empty fn = Inr []
       \<and> (\<exists>e0 e1 e2.
              Editor_init empty (Some fn) None False = Inr e0
              \<and> document e0 = [[]] \<and> cursor_y e0 = 0 \<and> cursor_x e0 = 0 \<and> \<not> is_dirty e0
              \<and> handle_keypress empty e0 ENTER None keys = Some (Inr (e1, keys))
              \<and> document e1 = [[], []] \<and> is_dirty e1
              \<and> handle_keypress empty e1 BACKSPACE None keys = Some (Inr (e2, keys))
              \<and> document e2 = [[]] \<and> cursor_y e2 = 0 \<and> cursor_x e2 = 0 \<and> is_dirty e2))"
  using enter_backspace_empty_document
          [of "\<lparr>IS_UNIX = True, get_terminal_size = (80, 24), get_clip_text_ps = Inr [],
                set_clip_text_ps = (\<lambda>t. None), path_exists = (\<lambda>p. False),
                read_lines = (\<lambda>p. Inl (OSError (cps ''No such file or directory''))),
                write_file = (\<lambda>p t. None), isspace = (\<lambda>c. c = 32)\<rparr>"
              "cps ''notes.txt''" "[(CTRL_Q, None)]"]
        enter_backspace_empty_document
          [of "\<lparr>IS_UNIX = True, get_terminal_size = (80, 24), get_clip_text_ps = Inr [],
                set_clip_text_ps = (\<lambda>t. None), path_exists = (\<lambda>p. True),
                read_lines = (\<lambda>p. Inr []),
                write_file = (\<lambda>p t. None), isspace = (\<lambda>c. c = 32)\<rparr>"
              "cps ''notes.txt''" "[(CTRL_Q, None)]"]
  by (simp add: Let_def)

section \<open>Deleting a selection of several lines\<close>

lemma to_string_encodable [simp]: "list_all encodable (to_string gb)"
  by (simp add: to_string_def)

lemma delete_selection_lines:
  assumes "get_selection e = Some (sy, sx, ey, ex)" and "sy < ey"
    and "0 \<le> sy" and "ey < int (length (buffer_lines e))" and "0 \<le> sx" and "0 \<le> ex"
  shows "\<exists>merged.
           delete_selection e
             = Inr (e\<lparr>buffer_lines :=
                        take (nat sy) (buffer_lines e) @ merged
                          # drop (nat ey + 1) (buffer_lines e),
                      cursor_x := sx, cursor_y := sy, is_dirty := True,
                      is_selecting := False\<rparr>)
           \<and> holds merged (take (nat sx) (to_string (buffer_lines e ! nat sy))
                            @ drop (nat ex) (to_string (buffer_lines e ! nat ey)))"
proof -
  let ?ls = "buffer_lines e"
  let ?t = "take (nat sx) (to_string (?ls ! nat sy)) @ drop (nat ex) (to_string (?ls ! nat ey))"
  have rng: "0 \<le> ey" "sy < int (length ?ls)" "sy \<noteq> ey" using assms(2,3,4) by simp_all
  have i0: "py_index ?ls sy = Inr (?ls ! nat sy)" using assms(3) rng by (simp add: py_index_in_range)
  have i1: "py_index ?ls ey = Inr (?ls ! nat ey)" using assms(4) rng by (simp add: py_index_in_range)
  have t: "get_slice (?ls ! nat sy) (Some 0) (Some sx) @ get_slice (?ls ! nat ey) (Some ex) None
             = ?t"
    using assms(5,6) by (simp add: get_slice_def)
  have "list_all encodable ?t" by (simp add: list_all_take list_all_drop)
  from GapBuffer_init_encodable [OF this] obtain merged
    where m: "GapBuffer_init ?t = Inr merged" "holds merged ?t"
    by blast
  have s: "py_setitem ?ls sy merged = Inr (?ls[nat sy := merged])"
    using assms(3) rng by (simp add: py_setitem_in_range)
  have n: "nat (sy + 1) = Suc (nat sy)" "nat (ey + 1) = nat ey + 1" "nat sy < length ?ls"
      "nat sy < nat ey + 1"
    using assms(2,3,4) by simp_all
  have d: "py_del_slice (?ls[nat sy := merged]) (sy + 1) (ey + 1)
             = take (nat sy) ?ls @ merged # drop (nat ey + 1) ?ls"
    using assms(2,3) n(3,4)
    by (simp add: py_del_slice_def n(1,2) take_Suc_conv_app_nth del: One_nat_def)
  have "delete_selection e
          = Inr (e\<lparr>buffer_lines := take (nat sy) ?ls @ merged # drop (nat ey + 1) ?ls,
                   cursor_x := sx, cursor_y := sy, is_dirty := True, is_selecting := False\<rparr>)"
    using rng(3) by (simp add: delete_selection_def assms(1) i0 i1 t m(1) s d)
  then show ?thesis using m(2) by blast
qed

text \<open>
  C4. For an editor whose selection \<open>get_selection\<close> gives as running from
  \<open>(sy, sx)\<close> to \<open>(ey, ex)\<close> on a strictly later line, both lines being lines of the
  document and both offsets not negative, \<open>delete_selection\<close> returns and leaves the
  lines before \<open>sy\<close>, then one line made of the first \<open>sx\<close> characters of line \<open>sy\<close>
  followed by line \<open>ey\<close> without its first \<open>ex\<close> characters, then the lines behind
  \<open>ey\<close>; the cursor is at \<open>(sy, sx)\<close>, nothing is selected any more and the document
  is dirty.
\<close>

theorem delete_selection_multi_line:
  assumes "get_selection e = Some (sy, sx, ey, ex)" and "sy < ey"
    and "0 \<le> sy" and "ey < int (length (buffer_lines e))" and "0 \<le> sx" and "0 \<le> ex"
  shows "\<exists>e'. delete_selection e = Inr e'
           \<and> document e'
               = take (nat sy) (document e)
                 @ (take (nat sx) (document e ! nat sy) @ drop (nat ex) (document e ! nat ey))
                 # drop (nat ey + 1) (document e)
           \<and> cursor_y e' = sy \<and> cursor_x e' = sx \<and> \<not> is_selecting e' \<and> is_dirty e'"
proof -
  from delete_selection_lines [OF assms] obtain merged
    where d: "delete_selection e
                = Inr (e\<lparr>buffer_lines :=
                           take (nat sy) (buffer_lines e) @ merged
                             # drop (nat ey + 1) (buffer_lines e),
                         cursor_x := sx, cursor_y := sy, is_dirty := True,
                         is_selecting := False\<rparr>)"
      and m: "holds merged (take (nat sx) (to_string (buffer_lines e ! nat sy))
                             @ drop (nat ex) (to_string (buffer_lines e ! nat ey)))"
    by blast
  have "nat sy < length (buffer_lines e)" "nat ey < length (buffer_lines e)"
    using assms(2,3,4) by simp_all
  then show ?thesis
    unfolding d
    by (simp add: document_def holds_to_string [OF m] take_map drop_map)
qed

lemma to_string_alpha:
  "to_string \<lparr>buffer = cps ''alpha'' @ replicate 16 0, gap_start = 5, gap_end = 21\<rparr> = cps ''alpha''"
  using holds_to_string [OF holds_fresh_ascii [of "cps ''alpha''" 16]] by (simp add: cps_simps)

lemma to_string_beta:
  "to_string \<lparr>buffer = cps ''beta'' @ replicate 16 0, gap_start = 4, gap_end = 20\<rparr> = cps ''beta''"
  using holds_to_string [OF holds_fresh_ascii [of "cps ''beta''" 16]] by (simp add: cps_simps)

lemma to_string_gamma:
  "to_string \<lparr>buffer = cps ''gamma'' @ replicate 16 0, gap_start = 5, gap_end = 21\<rparr> = cps ''gamma''"
  using holds_to_string [OF holds_fresh_ascii [of "cps ''gamma''" 16]] by (simp add: cps_simps)

theorem delete_selection_multi_line_witness:
  "(let e = \<lparr>filename = None, in_memory = True,
             buffer_lines =
               [\<lparr>buffer = cps ''alpha'' @ replicate 16 0, gap_start = 5, gap_end = 21\<rparr>,
                \<lparr>buffer = cps ''beta'' @ replicate 16 0, gap_start = 4, gap_end = 20\<rparr>,
                \<lparr>buffer = cps ''gamma'' @ replicate 16 0, gap_start = 5, gap_end = 21\<rparr>],
             cursor_x = 2, cursor_y = 2, running = True, is_dirty = False,
             status_message = HELP_STATUS, help_mode = False,
             selection_start_x = 3, selection_start_y = 0, is_selecting = True,
             clipboard = [],
             action_map = invert_bindings DEFAULT_KEY_BINDINGS,
             plain_movement_keys =
               filter (\<lambda>k. \<not> shift_in_name k) (movement_keys DEFAULT_KEY_BINDINGS),
             shift_movement_keys =
               filter shift_in_name (movement_keys DEFAULT_KEY_BINDINGS)\<rparr>
    in get_selection e = Some (0, 3, 2, 2) \<and> (0::int) < 2 \<and> (0::int) \<le> 0
       \<and> 2 < int (length (buffer_lines e)) \<and> (0::int) \<le> 3 \<and> (0::int) \<le> 2
       \<and> document e = [cps ''alpha'', cps ''beta'', cps ''gamma'']
       \<and> (\<exists>e'. delete_selection e = Inr e'
              \<and> document e' = [cps ''alpmma'']
              \<and> cursor_y e' = 0 \<and> cursor_x e' = 3 \<and> \<not> is_selecting e' \<and> is_dirty e'))"
proof -
  let ?e = "\<lparr>filename = None, in_memory = True,
             buffer_lines =
               [\<lparr>buffer = cps ''alpha'' @ replicate 16 0, gap_start = 5, gap_end = 21\<rparr>,
                \<lparr>buffer = cps ''beta'' @ replicate 16 0, gap_start = 4, gap_end = 20\<rparr>,
                \<lparr>buffer = cps ''gamma'' @ replicate 16 0, gap_start = 5, gap_end = 21\<rparr>],
             cursor_x = 2, cursor_y = 2, running = True, is_dirty = False,
             status_message = HELP_STATUS, help_mode = False,
             selection_start_x = 3, selection_start_y = 0, is_selecting = True,
             clipboard = [],
             action_map = invert_bindings DEFAULT_KEY_BINDINGS,
             plain_movement_keys =
               filter (\<lambda>k. \<not> shift_in_name k) (movement_keys DEFAULT_KEY_BINDINGS),
             shift_movement_keys =
               filter shift_in_name (movement_keys DEFAULT_KEY_BINDINGS)\<rparr>"
  have g: "get_selection ?e = Some (0, 3, 2, 2)" by (simp add: get_selection_def Let_def)
  have d: "document ?e = [cps ''alpha'', cps ''beta'', cps ''gamma'']"
    by (simp add: document_def to_string_alpha to_string_beta to_string_gamma)
  have t: "take (nat 3) (cps ''alpha'') @ drop (nat 2) (cps ''gamma'') = cps ''alpmma''"
    by (simp add: cps_simps)
  from delete_selection_multi_line [OF g] obtain e'
    where "delete_selection ?e = Inr e'"
      and "document e'
               = take (nat 0) (document ?e)
                 @ (take (nat 3) (document ?e ! nat 0) @ drop (nat 2) (document ?e ! nat 2))
                 # drop (nat 2 + 1) (document ?e)"
      and "cursor_y e' = 0 \<and> cursor_x e' = 3 \<and> \<not> is_selecting e' \<and> is_dirty e'"
    by auto
  then have "\<exists>e'. delete_selection ?e = Inr e'
              \<and> document e' = [cps ''alpmma'']
              \<and> cursor_y e' = 0 \<and> cursor_x e' = 3 \<and> \<not> is_selecting e' \<and> is_dirty e'"
    unfolding d using t by (auto simp add: numeral_2_eq_2)
  then show ?thesis unfolding Let_def using g d by simp
qed

section \<open>The cursor stays in the document\<close>

lemma cursor_in_document_same:
  "buffer_lines e' = buffer_lines e \<Longrightarrow> cursor_x e' = cursor_x e \<Longrightarrow> cursor_y e' = cursor_y e
   \<Longrightarrow> cursor_in_document e' = cursor_in_document e"
  by (simp add: cursor_in_document_def)

lemma prompt_frame:
  "prompt e msg keys = Some (Inr (e', answer, keys'))
   \<Longrightarrow> buffer_lines e' = buffer_lines e \<and> cursor_x e' = cursor_x e \<and> cursor_y e' = cursor_y e"
  by (auto simp add: prompt_def split: option.splits sum.splits)

lemma save_write_frame:
  "save_write ev e fn = Inr (ok, e')
   \<Longrightarrow> buffer_lines e' = buffer_lines e \<and> cursor_x e' = cursor_x e \<and> cursor_y e' = cursor_y e"
  by (auto simp add: save_write_def split: option.splits)

lemma save_confirm_frame:
  assumes "save_confirm ev e fn keys = Some (Inr (ok, e', keys'))"
  shows "buffer_lines e' = buffer_lines e \<and> cursor_x e' = cursor_x e \<and> cursor_y e' = cursor_y e"
proof (cases "path_exists ev fn")
  case False
  then show ?thesis
    using assms save_write_frame [of ev e fn]
    by (auto simp add: save_confirm_def split: sum.splits)
next
  case True
  let ?msg = "cps ''File '' @ [QUOTE] @ fn @ [QUOTE] @ cps '' already exists. Overwrite? (y/N): ''"
  from assms True obtain e1 overwrite keys1
    where p: "prompt e ?msg keys = Some (Inr (e1, overwrite, keys1))"
    by (auto simp add: save_confirm_def split: option.splits sum.splits)
  have f1: "buffer_lines e1 = buffer_lines e \<and> cursor_x e1 = cursor_x e \<and> cursor_y e1 = cursor_y e"
    by (rule prompt_frame [OF p])
  show ?thesis
  proof (cases "overwrite = None \<or> \<not> startswith (lower (the overwrite)) (cps ''y'')")
    case True
    then show ?thesis
      using assms \<open>path_exists ev fn\<close> p f1 by (auto simp add: save_confirm_def)
  next
    case False
    then obtain ok2 e2 where w: "save_write ev e1 fn = Inr (ok2, e2)" and "e' = e2"
      using assms \<open>path_exists ev fn\<close> p
      by (auto simp add: save_confirm_def split: sum.splits)
    then show ?thesis using save_write_frame [OF w] f1 by simp
  qed
qed

lemma save_file_frame:
  assumes "save_file ev e keys = Some (Inr (ok, e', keys'))"
  shows "buffer_lines e' = buffer_lines e \<and> cursor_x e' = cursor_x e \<and> cursor_y e' = cursor_y e"
proof (cases "in_memory e")
  case True
  then show ?thesis using assms by (auto simp add: save_file_def)
next
  case nm: False
  show ?thesis
  proof (cases "\<exists>c cs. filename e = Some (c # cs)")
    case True
    then obtain c cs where fn: "filename e = Some (c # cs)" by blast
    then have "save_confirm ev e (c # cs) keys = Some (Inr (ok, e', keys'))"
      using assms nm by (simp add: save_file_def)
    then show ?thesis by (rule save_confirm_frame)
  next
    case False
    then have sf: "save_file ev e keys =
        (case prompt e (cps ''Save as: '') keys of
               None \<Rightarrow> None
             | Some (Inl err) \<Rightarrow> Some (Inl err)
             | Some (Inr (e1, new_filename, keys1)) \<Rightarrow>
                 (case new_filename of
                    None \<Rightarrow> Some (Inr (False, e1\<lparr>status_message := cps ''Save cancelled.''\<rparr>, keys1))
                  | Some fn \<Rightarrow> save_confirm ev (e1\<lparr>filename := Some fn\<rparr>) fn keys1))"
      using nm by (auto simp add: save_file_def split: option.splits list.splits)
    from assms obtain e1 new_filename keys1
      where p: "prompt e (cps ''Save as: '') keys = Some (Inr (e1, new_filename, keys1))"
      unfolding sf by (auto split: option.splits sum.splits)
    have f1: "buffer_lines e1 = buffer_lines e \<and> cursor_x e1 = cursor_x e \<and> cursor_y e1 = cursor_y e"
      by (rule prompt_frame [OF p])
    show ?thesis
    proof (cases new_filename)
      case None
      then show ?thesis using assms f1 unfolding sf p by auto
    next
      case (Some fn)
      then have "save_confirm ev (e1\<lparr>filename := Some fn\<rparr>) fn keys1 = Some (Inr (ok, e', keys'))"
        using assms unfolding sf p by simp
      from save_confirm_frame [OF this] f1 show ?thesis by simp
    qed
  qed
qed

lemma quit_frame:
  assumes "quit ev e keys = Some (Inr (e', keys'))"
  shows "buffer_lines e' = buffer_lines e \<and> cursor_x e' = cursor_x e \<and> cursor_y e' = cursor_y e"
proof (cases "is_dirty e \<and> \<not> in_memory e")
  case False
  then show ?thesis using assms by (auto simp add: quit_def)
next
  case True
  let ?msg = "cps ''Save changes before quitting? (y/n): ''"
  from assms True obtain e1 response keys1
    where p: "prompt e ?msg keys = Some (Inr (e1, response, keys1))"
    by (auto simp add: quit_def split: option.splits sum.splits)
  have f1: "buffer_lines e1 = buffer_lines e \<and> cursor_x e1 = cursor_x e \<and> cursor_y e1 = cursor_y e"
    by (rule prompt_frame [OF p])
  show ?thesis
  proof (cases "response \<noteq> None \<and> lower (the response) = cps ''y''")
    case y: True
    then obtain ok e2 keys2 where s: "save_file ev e1 keys1 = Some (Inr (ok, e2, keys2))"
        and e': "e' = (if ok then e2\<lparr>running := False\<rparr> else e2)"
      using assms True p by (auto simp add: quit_def split: option.splits sum.splits)
    from save_file_frame [OF s] f1 e' show ?thesis by simp
  next
    case False
    then show ?thesis using assms True p f1 by (auto simp add: quit_def split: if_splits)
  qed
qed

text \<open>
  C5. Whatever the key, the character passed with it and the key bindings, a call of
  \<open>handle_keypress\<close> that returns, on an editor whose cursor is in the document, leaves
  an editor whose cursor is in the document: the document has a line, the cursor's line
  index is one of its lines and the character offset is between 0 and the length of
  that line. Every branch but \<open>quit\<close> ends in \<open>clamp_cursor\<close>; \<open>quit\<close> changes neither
  the document nor the cursor.
\<close>

theorem handle_keypress_cursor_in_document:
  assumes "cursor_in_document e"
    and "handle_keypress ev e k char keys = Some (Inr (e', keys'))"
  shows "cursor_in_document e'"
proof -
  define e1 where "e1 = e\<lparr>status_message := HELP_STATUS\<rparr>"
  define e2 where "e2 = (if k \<in> set (plain_movement_keys e1) \<and> is_selecting e1
                          then e1\<lparr>is_selecting := False\<rparr> else e1)"
  define e3 where "e3 = (if k \<in> set (shift_movement_keys e2) \<and> \<not> is_selecting e2
                          then e2\<lparr>is_selecting := True, selection_start_x := cursor_x e2,
                                  selection_start_y := cursor_y e2\<rparr>
                          else e2)"
  define action where "action = action_map e3 k"
  have same: "buffer_lines e3 = buffer_lines e" "cursor_x e3 = cursor_x e"
      "cursor_y e3 = cursor_y e"
    by (simp_all add: e3_def e2_def e1_def)
  have hk: "handle_keypress ev e k char keys =
      (case (if is_selecting e3 \<and> action \<in> Some ` set editing_actions
               then delete_selection e3 else Inr e3) of
           Inl err \<Rightarrow> Some (Inl err)
         | Inr e4 \<Rightarrow>
             if action = Some ''quit'' then quit ev e4 keys
             else if action = Some ''save'' then
               (case save_file ev e4 keys of
                  None \<Rightarrow> None
                | Some (Inl err) \<Rightarrow> Some (Inl err)
                | Some (Inr (ok, e5, keys1)) \<Rightarrow>
                    (case clamp_cursor e5 of
                       Inl err \<Rightarrow> Some (Inl err)
                     | Inr e6 \<Rightarrow> Some (Inr (e6, keys1))))
             else
               (case do_action ev action char e4 of
                  Inl err \<Rightarrow> Some (Inl err)
                | Inr e5 \<Rightarrow>
                    (case clamp_cursor e5 of
                       Inl err \<Rightarrow> Some (Inl err)
                     | Inr e6 \<Rightarrow> Some (Inr (e6, keys)))))"
    unfolding handle_keypress_def Let_def e1_def e2_def e3_def action_def by (rule refl)
  show ?thesis
  proof (cases "action = Some ''quit''")
    case True
    then have "action \<notin> Some ` set editing_actions" by (auto simp add: editing_actions_def)
    then have "quit ev e3 keys = Some (Inr (e', keys'))"
      using assms(2) True unfolding hk by simp
    from quit_frame [OF this] same
    have "cursor_in_document e' = cursor_in_document e"
      by (intro cursor_in_document_same) simp_all
    then show ?thesis using assms(1) by simp
  next
    case False
    have "\<exists>e5. clamp_cursor e5 = Inr e'"
      using assms(2) False unfolding hk
      by (auto split: sum.splits option.splits if_splits prod.splits)
    then obtain e5 where "clamp_cursor e5 = Inr e'" by blast
    then show ?thesis using clamp_cursor_establishes by blast
  qed
qed

lemma default_action_CTRL_Q: "invert_bindings DEFAULT_KEY_BINDINGS CTRL_Q = Some ''quit''"
  by (simp add: invert_bindings_def DEFAULT_KEY_BINDINGS_def)

theorem handle_keypress_cursor_in_document_witness:
  "(let e = \<lparr>filename = None, in_memory = False,
             buffer_lines = [\<lparr>buffer = replicate 16 0, gap_start = 0, gap_end = 16\<rparr>],
             cursor_x = 0, cursor_y = 0, running = True, is_dirty = False,
             status_message = HELP_STATUS, help_mode = False,
             selection_start_x = - 1, selection_start_y = - 1, is_selecting = False,
             clipboard = [],
             action_map = invert_bindings DEFAULT_KEY_BINDINGS,
             plain_movement_keys =
               filter (\<lambda>k. \<not> shift_in_name k) (movement_keys DEFAULT_KEY_BINDINGS),
             shift_movement_keys =
               filter shift_in_name (movement_keys DEFAULT_KEY_BINDINGS)\<rparr>;
        ev = \<lparr>IS_UNIX = True, get_terminal_size = (80, 24), get_clip_text_ps = Inr [],
              set_clip_text_ps = (\<lambda>t. None), path_exists = (\<lambda>p. False),
              read_lines = (\<lambda>p. Inr []), write_file = (\<lambda>p t. None),
              isspace = (\<lambda>c. c = 32)\<rparr>;
        entered = \<lparr>filename = None, in_memory = False,
             buffer_lines = [\<lparr>buffer = replicate 16 0, gap_start = 0, gap_end = 16\<rparr>,
                \<lparr>buffer = replicate 16 0, gap_start = 0, gap_end = 16\<rparr>],
             cursor_x = 0, cursor_y = 1, running = True, is_dirty = True,
             status_message = HELP_STATUS, help_mode = False,
             selection_start_x = - 1, selection_start_y = - 1, is_selecting = False,
             clipboard = [],
             action_map = invert_bindings DEFAULT_KEY_BINDINGS,
             plain_movement_keys =
               filter (\<lambda>k. \<not> shift_in_name k) (movement_keys DEFAULT_KEY_BINDINGS),
             shift_movement_keys =
               filter shift_in_name (movement_keys DEFAULT_KEY_BINDINGS)\<rparr>;
        left = \<lparr>filename = None, in_memory = False,
             buffer_lines = [\<lparr>buffer = replicate 16 0, gap_start = 0, gap_end = 16\<rparr>],
             cursor_x = 0, cursor_y = 0, running = False, is_dirty = False,
             status_message = HELP_STATUS, help_mode = False,
             selection_start_x = - 1, selection_start_y = - 1, is_selecting = False,
             clipboard = [],
             action_map = invert_bindings DEFAULT_KEY_BINDINGS,
             plain_movement_keys =
               filter (\<lambda>k. \<not> shift_in_name k) (movement_keys DEFAULT_KEY_BINDINGS),
             shift_movement_keys =
               filter shift_in_name (movement_keys DEFAULT_KEY_BINDINGS)\<rparr>
    in cursor_in_document e
       \<and> handle_keypress ev e ENTER None [] = Some (Inr (entered, []))
       \<and> cursor_in_document entered
       \<and> handle_keypress ev e CTRL_Q None [] = Some (Inr (left, []))
       \<and> cursor_in_document left)"
proof -
  let ?e = "\<lparr>filename = None, in_memory = False,
             buffer_lines = [\<lparr>buffer = replicate 16 0, gap_start = 0, gap_end = 16\<rparr>],
             cursor_x = 0, cursor_y = 0, running = True, is_dirty = False,
             status_message = HELP_STATUS, help_mode = False,
             selection_start_x = - 1, selection_start_y = - 1, is_selecting = False,
             clipboard = [],
             action_map = invert_bindings DEFAULT_KEY_BINDINGS,
             plain_movement_keys =
               filter (\<lambda>k. \<not> shift_in_name k) (movement_keys DEFAULT_KEY_BINDINGS),
             shift_movement_keys =
               filter shift_in_name (movement_keys DEFAULT_KEY_BINDINGS)\<rparr>"
  let ?ev = "\<lparr>IS_UNIX = True, get_terminal_size = (80, 24), get_clip_text_ps = Inr [],
              set_clip_text_ps = (\<lambda>t. None), path_exists = (\<lambda>p. False),
              read_lines = (\<lambda>p. Inr []), write_file = (\<lambda>p t. None),
              isspace = (\<lambda>c. c = 32)\<rparr>"
  let ?entered = "\<lparr>filename = None, in_memory = False,
             buffer_lines = [\<lparr>buffer = replicate 16 0, gap_start = 0, gap_end = 16\<rparr>,
                \<lparr>buffer = replicate 16 0, gap_start = 0, gap_end = 16\<rparr>],
             cursor_x = 0, cursor_y = 1, running = True, is_dirty = True,
             status_message = HELP_STATUS, help_mode = False,
             selection_start_x = - 1, selection_start_y = - 1, is_selecting = False,
             clipboard = [],
             action_map = invert_bindings DEFAULT_KEY_BINDINGS,
             plain_movement_keys =
               filter (\<lambda>k. \<not> shift_in_name k) (movement_keys DEFAULT_KEY_BINDINGS),
             shift_movement_keys =
               filter shift_in_name (movement_keys DEFAULT_KEY_BINDINGS)\<rparr>"
  let ?left = "\<lparr>filename = None, in_memory = False,
             buffer_lines = [\<lparr>buffer = replicate 16 0, gap_start = 0, gap_end = 16\<rparr>],
             cursor_x = 0, cursor_y = 0, running = False, is_dirty = False,
             status_message = HELP_STATUS, help_mode = False,
             selection_start_x = - 1, selection_start_y = - 1, is_selecting = False,
             clipboard = [],
             action_map = invert_bindings DEFAULT_KEY_BINDINGS,
             plain_movement_keys =
               filter (\<lambda>k. \<not> shift_in_name k) (movement_keys DEFAULT_KEY_BINDINGS),
             shift_movement_keys =
               filter shift_in_name (movement_keys DEFAULT_KEY_BINDINGS)\<rparr>"
  have c: "cursor_in_document ?e" by (simp add: cursor_in_document_def gb_len_def)
  have "handle_keypress ?ev ?e ENTER None []
          = Some (Inr (?e\<lparr>status_message := HELP_STATUS, is_dirty := True,
                           buffer_lines :=
                             [\<lparr>buffer = replicate 16 0, gap_start = 0, gap_end = 16\<rparr>,
                              \<lparr>buffer = replicate 16 0, gap_start = 0, gap_end = 16\<rparr>],
                           cursor_y := 1, cursor_x := 0\<rparr>, []))"
    by (rule handle_keypress_newline_empty) (simp_all add: default_action_ENTER)
  then have a: "handle_keypress ?ev ?e ENTER None [] = Some (Inr (?entered, []))" by simp
  have b: "handle_keypress ?ev ?e CTRL_Q None [] = Some (Inr (?left, []))"
    by (simp add: handle_keypress_def Let_def default_action_CTRL_Q editing_actions_def
          quit_def shift_in_name_def)
  show ?thesis
    unfolding Let_def
    using c a b
      handle_keypress_cursor_in_document [OF c a]
      handle_keypress_cursor_in_document [OF c b]
    by simp
qed

end
